theory Spec2Isabelle
  imports Complex_Main "HOL-Library.Log_Nat"
begin

section \<open>Python values used by the backend\<close>

text \<open>
  The backend (\<^verbatim>\<open>server.py\<close>) is Python. Every exception the modelled code can raise
  is a value; a function that can raise returns \<open>py_exception + 'a\<close>, with \<open>Inl\<close> the
  exception. All of them are subclasses of Python's \<^verbatim>\<open>Exception\<close>, FastAPI's
  \<^verbatim>\<open>HTTPException\<close> (status code, detail) included.
\<close>

datatype py_exception =
    HTTPException nat string
  | ZeroDivisionError
  | OverflowError
  | ValueError
  | OperationFailure
  | NotImplementedError

subsection \<open>Floats: IEEE-754 binary64\<close>

text \<open>
  A Python float is a binary64 value. A finite one is the rational number it denotes; the
  sign of zero is not kept: a zero stands for \<^verbatim>\<open>+0.0\<close>, and nothing modelled here turns on
  the difference. The result of an
  arithmetic operation is the exact result rounded to the nearest double, ties to the even
  significand: 53 bits of precision, quantum \<open>2 powi e\<close> with
  \<open>e = max (\<lfloor>log\<^sub>2 \<bar>x\<bar>\<rfloor> - 52) (-1074)\<close>, overflow to infinity from \<open>2 powi 1024\<close> on.
\<close>

datatype pyfloat = Finite rat | PInf | NInf | NaN

definition ilog2 :: "rat \<Rightarrow> int" where
  "ilog2 x =
     (let p = fst (quotient_of x); q = snd (quotient_of x); k = bitlen \<bar>p\<bar> - bitlen q
      in if 2 powi k \<le> \<bar>x\<bar> then k else k - 1)"

definition round_half_even :: "rat \<Rightarrow> int" where
  "round_half_even y =
     (let n = \<lfloor>y\<rfloor>; r = y - of_int n
      in if r < 1 / 2 then n else if 1 / 2 < r then n + 1 else if even n then n else n + 1)"

definition round_double :: "rat \<Rightarrow> pyfloat" where
  "round_double x =
     (if x = 0 then Finite 0
      else let e = max (ilog2 x - 52) (- 1074);
               r = of_int (round_half_even (x / 2 powi e)) * 2 powi e
           in if \<bar>r\<bar> < 2 powi 1024 then Finite r else if 0 < x then PInf else NInf)"

definition is_double :: "rat \<Rightarrow> bool" where
  "is_double x \<longleftrightarrow> round_double x = Finite x"

fun float_neg :: "pyfloat \<Rightarrow> pyfloat" where
  "float_neg (Finite a) = Finite (- a)"
| "float_neg PInf = NInf"
| "float_neg NInf = PInf"
| "float_neg NaN = NaN"

fun float_add :: "pyfloat \<Rightarrow> pyfloat \<Rightarrow> pyfloat" where
  "float_add (Finite a) (Finite b) = round_double (a + b)"
| "float_add NaN _ = NaN"
| "float_add _ NaN = NaN"
| "float_add PInf NInf = NaN"
| "float_add NInf PInf = NaN"
| "float_add PInf _ = PInf"
| "float_add NInf _ = NInf"
| "float_add _ PInf = PInf"
| "float_add _ NInf = NInf"

definition float_sub :: "pyfloat \<Rightarrow> pyfloat \<Rightarrow> pyfloat" where
  "float_sub x y = float_add x (float_neg y)"

fun float_sgn :: "pyfloat \<Rightarrow> int" where
  "float_sgn (Finite a) = (if a < 0 then - 1 else if a = 0 then 0 else 1)"
| "float_sgn PInf = 1"
| "float_sgn NInf = - 1"
| "float_sgn NaN = 0"

fun float_mul :: "pyfloat \<Rightarrow> pyfloat \<Rightarrow> pyfloat" where
  "float_mul (Finite a) (Finite b) = round_double (a * b)"
| "float_mul NaN _ = NaN"
| "float_mul _ NaN = NaN"
| "float_mul x y =
     (let s = float_sgn x * float_sgn y
      in if s = 0 then NaN else if 0 < s then PInf else NInf)"

text \<open>Python's \<^verbatim>\<open>==\<close> on floats: NaN is equal to nothing, itself included.\<close>

fun float_eq :: "pyfloat \<Rightarrow> pyfloat \<Rightarrow> bool" where
  "float_eq NaN _ = False"
| "float_eq _ NaN = False"
| "float_eq x y = (x = y)"

text \<open>
  \<^verbatim>\<open>a / b\<close> on two ints is true division: the exact quotient, correctly rounded;
  it raises when \<^verbatim>\<open>b\<close> is zero and when the quotient is too large for a float.
\<close>

definition int_truediv :: "int \<Rightarrow> int \<Rightarrow> py_exception + pyfloat" where
  "int_truediv a b =
     (if b = 0 then Inl ZeroDivisionError
      else case round_double (of_int a / of_int b) of
             Finite r \<Rightarrow> Inr (Finite r)
           | _ \<Rightarrow> Inl OverflowError)"

text \<open>
  \<^verbatim>\<open>x / y\<close> on floats raises when \<^verbatim>\<open>y\<close> is zero, whatever \<^verbatim>\<open>x\<close> is; otherwise it is
  the IEEE-754 division.
\<close>

definition float_truediv :: "pyfloat \<Rightarrow> pyfloat \<Rightarrow> py_exception + pyfloat" where
  "float_truediv x y =
     (case y of
        Finite b \<Rightarrow>
          (if b = 0 then Inl ZeroDivisionError
           else case x of
                  Finite a \<Rightarrow> Inr (round_double (a / b))
                | PInf \<Rightarrow> Inr (if 0 < b then PInf else NInf)
                | NInf \<Rightarrow> Inr (if 0 < b then NInf else PInf)
                | NaN \<Rightarrow> Inr NaN)
      | NaN \<Rightarrow> Inr NaN
      | _ \<Rightarrow> (case x of Finite a \<Rightarrow> Inr (Finite 0) | _ \<Rightarrow> Inr NaN))"

text \<open>A float below zero; a finite float; a finite float between -1 and 1.\<close>

definition float_negative :: "pyfloat \<Rightarrow> bool" where
  "float_negative x = (case x of Finite r \<Rightarrow> r < 0 | NInf \<Rightarrow> True | _ \<Rightarrow> False)"

definition is_finite :: "pyfloat \<Rightarrow> bool" where
  "is_finite x = (case x of Finite r \<Rightarrow> True | _ \<Rightarrow> False)"

definition unit_float :: "pyfloat \<Rightarrow> bool" where
  "unit_float x = (case x of Finite r \<Rightarrow> \<bar>r\<bar> \<le> 1 | _ \<Rightarrow> False)"

text \<open>
  Sequencing: the second computation runs on the value of the first, and an exception
  raised by the first is the outcome.
\<close>

definition and_then :: "'e + 'a \<Rightarrow> ('a \<Rightarrow> 'e + 'b) \<Rightarrow> 'e + 'b" where
  "and_then r f = (case r of Inl e \<Rightarrow> Inl e | Inr x \<Rightarrow> f x)"

text \<open>\<^verbatim>\<open>int(x)\<close> on a float truncates toward zero and raises on infinities and NaN.\<close>

definition trunc_rat :: "rat \<Rightarrow> int" where
  "trunc_rat r = (if 0 \<le> r then \<lfloor>r\<rfloor> else \<lceil>r\<rceil>)"

fun py_int :: "pyfloat \<Rightarrow> py_exception + int" where
  "py_int (Finite r) = Inr (trunc_rat r)"
| "py_int PInf = Inl OverflowError"
| "py_int NInf = Inl OverflowError"
| "py_int NaN = Inl ValueError"

section \<open>Data model\<close>

text \<open>
  The pydantic models \<^verbatim>\<open>BusStop\<close>, \<^verbatim>\<open>Route\<close> and \<^verbatim>\<open>Bus\<close>, which are also the documents of
  the three MongoDB collections. The fields \<^verbatim>\<open>id\<close>, \<^verbatim>\<open>name\<close>, \<^verbatim>\<open>city\<close> occur in several models
  and are prefixed here (\<open>s_\<close> for a stop, \<open>r_\<close> for a route, \<open>b_\<close> for a bus); the other
  fields keep their names. Coordinates and distances are Python floats.
\<close>

record bus_stop =
  s_id :: string
  s_name :: string
  s_lat :: pyfloat
  s_lng :: pyfloat
  s_city :: string

record route =
  r_id :: string
  r_name :: string
  r_stops :: "string list"
  r_distance_km :: pyfloat
  r_estimated_duration_minutes :: int
  r_city :: string

record bus =
  b_id :: string
  bus_number :: string
  route_id :: string
  capacity :: int
  current_occupancy :: int
  current_lat :: pyfloat
  current_lng :: pyfloat
  current_stop_index :: int
  direction :: int
  status :: string
  last_updated :: nat

text \<open>The database: each collection in its natural (insertion) order.\<close>

record database =
  bus_stops :: "bus_stop list"
  routes :: "route list"
  buses :: "bus list"

section \<open>Fleet status\<close>

text \<open>
  \<^verbatim>\<open>get_fleet_status\<close>: the counts and sums over all bus documents. The time stamp of the
  answer is left out. \<^verbatim>\<open>occupancy_rate\<close> is
  \<^verbatim>\<open>(current_occupancy / total_capacity * 100) if total_capacity > 0 else 0\<close>.
\<close>

record fleet_status =
  fs_total_buses :: int
  fs_active_buses :: int
  fs_offline_buses :: int
  fs_total_capacity :: int
  fs_current_occupancy :: int
  fs_occupancy_rate :: pyfloat
  fs_buses :: "bus list"
  fs_routes :: int

definition occupancy_rate :: "int \<Rightarrow> int \<Rightarrow> py_exception + pyfloat" where
  "occupancy_rate occ cap =
     (if 0 < cap
      then case int_truediv occ cap of
             Inl e \<Rightarrow> Inl e
           | Inr q \<Rightarrow> Inr (float_mul q (Finite 100))
      else Inr (Finite 0))"

definition get_fleet_status :: "database \<Rightarrow> py_exception + fleet_status" where
  "get_fleet_status db =
     (let bs = buses db;
          total_buses = int (length bs);
          active_buses = int (length (filter (\<lambda>b. status b = ''active'') bs));
          total_capacity = sum_list (map capacity bs);
          cur_occupancy = sum_list (map current_occupancy bs)
      in case occupancy_rate cur_occupancy total_capacity of
           Inl e \<Rightarrow> Inl e
         | Inr rate \<Rightarrow>
             Inr \<lparr> fs_total_buses = total_buses,
                   fs_active_buses = active_buses,
                   fs_offline_buses = total_buses - active_buses,
                   fs_total_capacity = total_capacity,
                   fs_current_occupancy = cur_occupancy,
                   fs_occupancy_rate = rate,
                   fs_buses = bs,
                   fs_routes = int (length (routes db)) \<rparr>)"

section \<open>Geo helpers\<close>

text \<open>
  \<^verbatim>\<open>calculate_distance\<close> is the haversine formula with \<^verbatim>\<open>R = 6371\<close>, on Python floats. Its
  additions, subtractions, multiplications and divisions are the IEEE-754 ones above.
  \<^verbatim>\<open>math.sin\<close>, \<^verbatim>\<open>math.cos\<close>, \<^verbatim>\<open>math.sqrt\<close> and \<^verbatim>\<open>math.atan2\<close> come from the C library, whose
  values no standard fixes bit for bit: the \<^verbatim>\<open>math\<close> module is a parameter, four functions
  that return a float or raise.
\<close>

record py_math =
  math_sin :: "pyfloat \<Rightarrow> py_exception + pyfloat"
  math_cos :: "pyfloat \<Rightarrow> py_exception + pyfloat"
  math_sqrt :: "pyfloat \<Rightarrow> py_exception + pyfloat"
  math_atan2 :: "pyfloat \<Rightarrow> pyfloat \<Rightarrow> py_exception + pyfloat"

text \<open>
  \<^verbatim>\<open>math.radians(x)\<close> is the product of \<^verbatim>\<open>x\<close> and the constant \<^verbatim>\<open>pi / 180.0\<close>, a double; \<open>pi\<close>
  is the double 3.141592653589793.
\<close>

definition pi_double :: rat where
  "pi_double = 884279719003555 / 281474976710656"

definition deg_to_rad :: rat where
  "deg_to_rad = 5030569068109113 / 288230376151711744"

definition radians :: "pyfloat \<Rightarrow> pyfloat" where
  "radians x = float_mul x (Finite deg_to_rad)"

text \<open>
  The term \<^verbatim>\<open>a\<close> of the formula. The source calls \<^verbatim>\<open>math.sin\<close> twice on each half angle;
  the two calls return the same value, which is bound once here. The calls are made in
  the order of the source.
\<close>

definition haversine_term ::
  "py_math \<Rightarrow> pyfloat \<Rightarrow> pyfloat \<Rightarrow> pyfloat \<Rightarrow> pyfloat \<Rightarrow> py_exception + pyfloat" where
  "haversine_term math lat1 lng1 lat2 lng2 =
     (let lat1_rad = radians lat1;
          lat2_rad = radians lat2;
          delta_lat = radians (float_sub lat2 lat1);
          delta_lng = radians (float_sub lng2 lng1)
      in and_then (float_truediv delta_lat (Finite 2)) (\<lambda>half_lat.
         and_then (math_sin math half_lat) (\<lambda>sin_lat.
         and_then (math_cos math lat1_rad) (\<lambda>cos1.
         and_then (math_cos math lat2_rad) (\<lambda>cos2.
         and_then (float_truediv delta_lng (Finite 2)) (\<lambda>half_lng.
         and_then (math_sin math half_lng) (\<lambda>sin_lng.
           Inr (float_add (float_mul sin_lat sin_lat)
                  (float_mul (float_mul (float_mul cos1 cos2) sin_lng) sin_lng)))))))))"

text \<open>\<^verbatim>\<open>c = 2 * math.atan2(math.sqrt(a), math.sqrt(1-a))\<close> and \<^verbatim>\<open>return R * c\<close>.\<close>

definition calculate_distance ::
  "py_math \<Rightarrow> pyfloat \<Rightarrow> pyfloat \<Rightarrow> pyfloat \<Rightarrow> pyfloat \<Rightarrow> py_exception + pyfloat" where
  "calculate_distance math lat1 lng1 lat2 lng2 =
     and_then (haversine_term math lat1 lng1 lat2 lng2) (\<lambda>a.
     and_then (math_sqrt math a) (\<lambda>sqrt_a.
     and_then (math_sqrt math (float_sub (Finite 1) a)) (\<lambda>sqrt_1_a.
     and_then (math_atan2 math sqrt_a sqrt_1_a) (\<lambda>angle.
       Inr (float_mul (Finite 6371) (float_mul (Finite 2) angle))))))"

text \<open>
  What the theorems below assume of the \<^verbatim>\<open>math\<close> module; C99 (Annex F) and IEEE-754
  guarantee each point. The sine of 0 is 0, the square roots of 0 and 1 are 0 and 1, and
  \<^verbatim>\<open>atan2(0, 1)\<close> is 0. A cosine that is returned lies between -1 and 1 (at an infinity
  \<^verbatim>\<open>math.cos\<close> raises). A square root that is returned is not negative. \<^verbatim>\<open>atan2\<close> of two
  arguments that are not negative is not negative.
\<close>

definition math_facts :: "py_math \<Rightarrow> bool" where
  "math_facts math \<longleftrightarrow>
     math_sin math (Finite 0) = Inr (Finite 0) \<and>
     math_sqrt math (Finite 0) = Inr (Finite 0) \<and>
     math_sqrt math (Finite 1) = Inr (Finite 1) \<and>
     math_atan2 math (Finite 0) (Finite 1) = Inr (Finite 0) \<and>
     (\<forall>x c. x \<noteq> NaN \<longrightarrow> math_cos math x = Inr c \<longrightarrow> unit_float c) \<and>
     (\<forall>x y. math_sqrt math x = Inr y \<longrightarrow> \<not> float_negative y) \<and>
     (\<forall>y x t. math_atan2 math y x = Inr t \<longrightarrow> \<not> float_negative y \<longrightarrow> \<not> float_negative x \<longrightarrow>
        \<not> float_negative t)"

text \<open>
  The module at the arguments that the scenarios below reach, with the values CPython
  returns there (IEEE doubles, written as fractions). At any other argument
  \<open>sampled_math\<close> is not implemented. \<^verbatim>\<open>math.sqrt\<close> of a negative number raises
  \<^verbatim>\<open>ValueError\<close> (math domain error).
\<close>

definition lookup_float :: "('a \<times> pyfloat) list \<Rightarrow> 'a \<Rightarrow> py_exception + pyfloat" where
  "lookup_float samples x =
     (case map_of samples x of Some y \<Rightarrow> Inr y | None \<Rightarrow> Inl NotImplementedError)"

definition sin_samples :: "(pyfloat \<times> pyfloat) list" where
  "sin_samples =
     [(Finite (- (884279719003555 / 562949953421312)), Finite (- 1)),
      (Finite (- (6288211335136391 / 144115188075855872)), Finite (- (6286216213909009 / 144115188075855872))),
      (Finite (- (2895423649930867 / 36893488147419103232)), Finite (- (5790847293917229 / 73786976294838206464))),
      (Finite 0, Finite 0),
      (Finite (6288211335136391 / 144115188075855872), Finite (6286216213909009 / 144115188075855872)),
      (Finite (884279719003555 / 562949953421312), Finite 1)]"

definition cos_samples :: "(pyfloat \<times> pyfloat) list" where
  "cos_samples =
     [(Finite (- (6288211335136391 / 144115188075855872)), Finite (8998626396882423 / 9007199254740992)),
      (Finite 0, Finite 1),
      (Finite (2895423649930867 / 18446744073709551616), Finite (9007199143786583 / 9007199254740992)),
      (Finite (6288211335136391 / 144115188075855872), Finite (8998626396882423 / 9007199254740992)),
      (Finite (2252453020774193 / 4503599627370496), Finite (3951967292985077 / 4503599627370496))]"

definition sqrt_samples :: "(pyfloat \<times> pyfloat) list" where
  "sqrt_samples =
     [(Finite 0, Finite 0),
      (Finite (1861506081583447 / 302231454903657293676544), Finite (5790847293917229 / 73786976294838206464)),
      (Finite (2251799799815947 / 2251799813685248), Finite (4503599613501195 / 4503599627370496)),
      (Finite 1, Finite 1),
      (Finite (4503599627370497 / 4503599627370496), Finite 1)]"

definition atan2_samples :: "((pyfloat \<times> pyfloat) \<times> pyfloat) list" where
  "atan2_samples =
     [((Finite 0, Finite 1), Finite 0),
      ((Finite (5790847293917229 / 73786976294838206464), Finite (4503599613501195 / 4503599627370496)), Finite (5790847299861733 / 73786976294838206464))]"

definition sampled_math :: py_math where
  "sampled_math =
     \<lparr> math_sin = lookup_float sin_samples,
       math_cos = lookup_float cos_samples,
       math_sqrt = (\<lambda>x. if float_negative x then Inl ValueError else lookup_float sqrt_samples x),
       math_atan2 = (\<lambda>y x. lookup_float atan2_samples (y, x)) \<rparr>"

text \<open>
  \<^verbatim>\<open>interpolate_position\<close> uses only \<^verbatim>\<open>+\<close>, \<^verbatim>\<open>-\<close> and \<^verbatim>\<open>*\<close> on floats, whose results
  IEEE-754 fixes bit for bit; it is modelled on doubles, each operation rounding.
\<close>

definition interpolate_position ::
  "pyfloat \<Rightarrow> pyfloat \<Rightarrow> pyfloat \<Rightarrow> pyfloat \<Rightarrow> pyfloat \<Rightarrow> pyfloat \<times> pyfloat" where
  "interpolate_position start_lat start_lng end_lat end_lng progress =
     (let lat = float_add start_lat (float_mul (float_sub end_lat start_lat) progress);
          lng = float_add start_lng (float_mul (float_sub end_lng start_lng) progress)
      in (lat, lng))"

section \<open>Stop lookup by name\<close>

text \<open>
  \<^verbatim>\<open>db.bus_stops.find_one({"name": {"$regex": q, "$options": "i"}})\<close> hands the query
  string to the database's regular-expression engine as a pattern and returns the first
  stop document, in natural order, whose name the pattern matches somewhere, ignoring
  case; \<^verbatim>\<open>None\<close> when there is none. A pattern the engine rejects makes the driver raise.
  The engine is a parameter: it compiles a pattern to a matcher or raises.
\<close>

type_synonym regex_engine = "string \<Rightarrow> py_exception + (string \<Rightarrow> bool)"

definition find_one_by_name ::
  "regex_engine \<Rightarrow> bus_stop list \<Rightarrow> string \<Rightarrow> py_exception + bus_stop option" where
  "find_one_by_name engine stops q =
     (case engine q of
        Inl e \<Rightarrow> Inl e
      | Inr matches \<Rightarrow> Inr (find (\<lambda>s. matches (s_name s)) stops))"

text \<open>
  One concrete engine, for ASCII text: it accepts the patterns made of literal characters
  and the wildcard \<^verbatim>\<open>.\<close> (any character but a line feed) and rejects every pattern that
  uses another metacharacter or a character outside printable ASCII. On the patterns it
  accepts it is the caseless, unanchored search of a Perl-compatible engine.
\<close>

datatype pat_item = Lit char | AnyChar

definition other_metachars :: "char list" where
  "other_metachars = CHR 0x5C # ''^$|?*+()[]{}''"

definition printable :: "char \<Rightarrow> bool" where
  "printable c \<longleftrightarrow> 32 \<le> (of_char c :: nat) \<and> (of_char c :: nat) \<le> 126"

text \<open>Caseless comparison: the character codes, with \<open>A\<close>-\<open>Z\<close> folded onto \<open>a\<close>-\<open>z\<close>.\<close>

definition fold_case :: "char \<Rightarrow> nat" where
  "fold_case c =
     (let n = (of_char c :: nat) in if 65 \<le> n \<and> n \<le> 90 then n + 32 else n)"

fun parse_pattern :: "string \<Rightarrow> pat_item list option" where
  "parse_pattern [] = Some []"
| "parse_pattern (c # cs) =
     (if c = CHR ''.'' then map_option ((#) AnyChar) (parse_pattern cs)
      else if c \<in> set other_metachars \<or> \<not> printable c then None
      else map_option ((#) (Lit c)) (parse_pattern cs))"

fun item_matches :: "pat_item \<Rightarrow> char \<Rightarrow> bool" where
  "item_matches (Lit c) d = (fold_case c = fold_case d)"
| "item_matches AnyChar d = (d \<noteq> CHR 0x0A)"

fun match_here :: "pat_item list \<Rightarrow> string \<Rightarrow> bool" where
  "match_here [] ds = True"
| "match_here (p # ps) [] = False"
| "match_here (p # ps) (d # ds) = (item_matches p d \<and> match_here ps ds)"

fun search :: "pat_item list \<Rightarrow> string \<Rightarrow> bool" where
  "search ps [] = match_here ps []"
| "search ps (d # ds) = (match_here ps (d # ds) \<or> search ps ds)"

definition literal_dot_engine :: regex_engine where
  "literal_dot_engine q =
     (case parse_pattern q of
        None \<Rightarrow> Inl OperationFailure
      | Some ps \<Rightarrow> Inr (search ps))"

text \<open>
  The lookup as the specification words it: the first stop whose name contains the query
  string, ignoring case.
\<close>

fun starts_with :: "'a list \<Rightarrow> 'a list \<Rightarrow> bool" where
  "starts_with ds [] = True"
| "starts_with [] (c # cs) = False"
| "starts_with (d # ds) (c # cs) = (d = c \<and> starts_with ds cs)"

fun contains :: "'a list \<Rightarrow> 'a list \<Rightarrow> bool" where
  "contains [] q = starts_with [] q"
| "contains (d # ds) q = (starts_with (d # ds) q \<or> contains ds q)"

definition contains_ci :: "string \<Rightarrow> string \<Rightarrow> bool" where
  "contains_ci name q = contains (map fold_case name) (map fold_case q)"

text \<open>A query in which no character is a metacharacter of regular expressions.\<close>

definition literal_query :: "string \<Rightarrow> bool" where
  "literal_query q =
     list_all (\<lambda>c. printable c \<and> c \<noteq> CHR ''.'' \<and> c \<notin> set other_metachars) q"

definition find_stop_by_name_spec :: "bus_stop list \<Rightarrow> string \<Rightarrow> bus_stop option" where
  "find_stop_by_name_spec stops q = find (\<lambda>s. contains_ci (s_name s) q) stops"

section \<open>Finding buses between two stops\<close>

record bus_query =
  from_stop :: string
  to_stop :: string

text \<open>\<^verbatim>\<open>BusQueryResponse\<close>; its field \<^verbatim>\<open>bus_number\<close> is \<open>res_bus_number\<close> here.\<close>

record bus_query_response =
  res_bus_number :: string
  route_name :: string
  eta_minutes :: int
  occupancy_percentage :: int
  available_seats :: int
  next_arrival :: string

text \<open>
  What the handler reads from outside: the random source and the wall clock. The \<open>k\<close>-th
  bus handled draws \<open>random_raw k\<close> and reads the time \<open>clock_minutes k\<close> (minutes since
  midnight). \<^verbatim>\<open>random.randint(a, b)\<close> with \<open>a \<le> b\<close> (the handler calls it with 2 and 8)
  returns an integer between \<open>a\<close> and \<open>b\<close>, both included; every one of them is the
  value for some draw.
\<close>

record environment =
  random_raw :: "nat \<Rightarrow> nat"
  clock_minutes :: "nat \<Rightarrow> nat"

definition randint :: "nat \<Rightarrow> int \<Rightarrow> int \<Rightarrow> int" where
  "randint raw a b = a + int (raw mod nat (b - a + 1))"

text \<open>\<^verbatim>\<open>int(distance_to_from / 20 * 60)\<close>\<close>

definition whole_minutes :: "pyfloat \<Rightarrow> py_exception + int" where
  "whole_minutes distance_to_from =
     and_then (float_truediv distance_to_from (Finite 20)) (\<lambda>hours.
       py_int (float_mul hours (Finite 60)))"

definition two_digits :: "nat \<Rightarrow> string" where
  "two_digits n = [''0123456789'' ! ((n div 10) mod 10), ''0123456789'' ! (n mod 10)]"

text \<open>\<^verbatim>\<open>strftime("%H:%M")\<close> of a time of day given in minutes since midnight.\<close>

definition strftime_HM :: "nat \<Rightarrow> string" where
  "strftime_HM m = two_digits ((m mod 1440) div 60) @ '':'' @ two_digits (m mod 60)"

text \<open>The query \<^verbatim>\<open>{"stops": {"$all": [a, b]}}\<close>: the array field holds every listed value.\<close>

definition mongo_all :: "'a list \<Rightarrow> 'a list \<Rightarrow> bool" where
  "mongo_all wanted arr = list_all (\<lambda>w. w \<in> set arr) wanted"

definition routes_containing_both :: "route list \<Rightarrow> string \<Rightarrow> string \<Rightarrow> route list" where
  "routes_containing_both rs a b = filter (\<lambda>r. mongo_all [a, b] (r_stops r)) rs"

definition active_buses_on :: "bus list \<Rightarrow> route \<Rightarrow> bus list" where
  "active_buses_on bs r = filter (\<lambda>b. route_id b = r_id r \<and> status b = ''active'') bs"

text \<open>\<^verbatim>\<open>int((bus["current_occupancy"] / bus["capacity"]) * 100)\<close>\<close>

definition occupancy_pct :: "int \<Rightarrow> int \<Rightarrow> py_exception + int" where
  "occupancy_pct occ cap =
     (case int_truediv occ cap of
        Inl e \<Rightarrow> Inl e
      | Inr ratio \<Rightarrow> py_int (float_mul ratio (Finite 100)))"

text \<open>
  The percentage as the specification words it, \<^verbatim>\<open>round(100 * occupancy / capacity)\<close>,
  halves rounded up as in its example (97.5 gives 98, 12.5 gives 13).
\<close>

definition occupancy_percentage_spec :: "int \<Rightarrow> int \<Rightarrow> int" where
  "occupancy_percentage_spec occ cap = round (100 * of_int occ / of_int cap :: rat)"

text \<open>The body of the inner loop: the response for one bus of one route.\<close>

definition bus_response ::
  "py_math \<Rightarrow> environment \<Rightarrow> bus_stop \<Rightarrow> nat \<Rightarrow> route \<Rightarrow> bus \<Rightarrow>
     py_exception + bus_query_response" where
  "bus_response math env fs k rt b =
     (case calculate_distance math (current_lat b) (current_lng b) (s_lat fs) (s_lng fs) of
        Inl e \<Rightarrow> Inl e
      | Inr distance_to_from \<Rightarrow>
          (case whole_minutes distance_to_from of
             Inl e \<Rightarrow> Inl e
           | Inr minutes \<Rightarrow>
               (let eta = minutes + randint (random_raw env k) 2 8
                in case occupancy_pct (current_occupancy b) (capacity b) of
                     Inl e \<Rightarrow> Inl e
                   | Inr pct \<Rightarrow>
                       Inr \<lparr> res_bus_number = bus_number b,
                             route_name = r_name rt,
                             eta_minutes = eta,
                             occupancy_percentage = pct,
                             available_seats = capacity b - current_occupancy b,
                             next_arrival =
                               strftime_HM (nat ((int (clock_minutes env k) + eta) mod 1440)) \<rparr>)))"

text \<open>
  The two nested loops visit the pairs (route, bus) in this order: the matching routes in
  their order, and for each the active buses assigned to it in theirs.
\<close>

definition route_bus_pairs :: "database \<Rightarrow> bus_stop \<Rightarrow> bus_stop \<Rightarrow> (route \<times> bus) list" where
  "route_bus_pairs db fs ts =
     concat (map (\<lambda>r. map (\<lambda>b. (r, b)) (active_buses_on (buses db) r))
                 (routes_containing_both (routes db) (s_id fs) (s_id ts)))"

text \<open>The list \<^verbatim>\<open>results\<close> before sorting; the first exception ends the loops.\<close>

fun collect_results ::
  "py_math \<Rightarrow> environment \<Rightarrow> bus_stop \<Rightarrow> nat \<Rightarrow> (route \<times> bus) list \<Rightarrow> py_exception + bus_query_response list"
where
  "collect_results math env fs k [] = Inr []"
| "collect_results math env fs k ((rt, b) # ps) =
     (case bus_response math env fs k rt b of
        Inl e \<Rightarrow> Inl e
      | Inr x \<Rightarrow>
          (case collect_results math env fs (Suc k) ps of
             Inl e \<Rightarrow> Inl e
           | Inr xs \<Rightarrow> Inr (x # xs)))"

text \<open>
  The body of the \<^verbatim>\<open>try\<close> block. \<^verbatim>\<open>results.sort(key=lambda x: x.eta_minutes)\<close> is a
  stable sort on the key.
\<close>

definition find_buses_try ::
  "py_math \<Rightarrow> regex_engine \<Rightarrow> database \<Rightarrow> environment \<Rightarrow> bus_query \<Rightarrow>
     py_exception + bus_query_response list" where
  "find_buses_try math engine db env query =
     (case find_one_by_name engine (bus_stops db) (from_stop query) of
        Inl e \<Rightarrow> Inl e
      | Inr from_doc \<Rightarrow>
          (case find_one_by_name engine (bus_stops db) (to_stop query) of
             Inl e \<Rightarrow> Inl e
           | Inr to_doc \<Rightarrow>
               (case (from_doc, to_doc) of
                  (Some fs, Some ts) \<Rightarrow>
                    (case collect_results math env fs 0 (route_bus_pairs db fs ts) of
                       Inl e \<Rightarrow> Inl e
                     | Inr results \<Rightarrow> Inr (sort_key eta_minutes results))
                | _ \<Rightarrow> Inl (HTTPException 404 ''One or both stops not found''))))"

text \<open>
  The handler: \<^verbatim>\<open>except Exception as e\<close> around the whole body catches every exception
  raised in it and raises \<^verbatim>\<open>HTTPException(status_code=500, detail="Error finding buses")\<close>.
\<close>

definition find_buses ::
  "py_math \<Rightarrow> regex_engine \<Rightarrow> database \<Rightarrow> environment \<Rightarrow> bus_query \<Rightarrow>
     py_exception + bus_query_response list" where
  "find_buses math engine db env query =
     (case find_buses_try math engine db env query of
        Inl e \<Rightarrow> Inl (HTTPException 500 ''Error finding buses'')
      | Inr results \<Rightarrow> Inr results)"

section \<open>Sample data\<close>

text \<open>
  Four stops of Delhi and the route through them, from \<^verbatim>\<open>INDIAN_CITIES_DATA\<close>. Their
  coordinates are the doubles nearest to the decimal numbers of the source (28.6562 and
  77.2410 for Red Fort, 28.6129 and 77.2295 for India Gate, 28.6315 and 77.2167 for
  Connaught Place, 28.6519 and 77.1909 for Karol Bagh).
\<close>

definition red_fort_lat_double :: rat where
  "red_fort_lat_double = 2016500806903975 / 70368744177664"

definition red_fort_lng_double :: rat where
  "red_fort_lng_double = 5435352169026945 / 70368744177664"

definition india_gate_lat_double :: rat where
  "india_gate_lat_double = 8053815361124329 / 281474976710656"

definition india_gate_lng_double :: rat where
  "india_gate_lng_double = 2717271464234451 / 35184372088832"

definition connaught_place_lat_double :: rat where
  "connaught_place_lat_double = 8059050795691147 / 281474976710656"

definition connaught_place_lng_double :: rat where
  "connaught_place_lng_double = 1358410552135857 / 17592186044416"

definition karol_bagh_lat_double :: rat where
  "karol_bagh_lat_double = 8064792885216045 / 281474976710656"

definition karol_bagh_lng_double :: rat where
  "karol_bagh_lng_double = 1357956673735911 / 17592186044416"

definition red_fort :: bus_stop where
  "red_fort = \<lparr> s_id = ''stop-0'', s_name = ''Red Fort'', s_lat = Finite red_fort_lat_double,
       s_lng = Finite red_fort_lng_double, s_city = ''Delhi'' \<rparr>"

definition india_gate :: bus_stop where
  "india_gate = \<lparr> s_id = ''stop-1'', s_name = ''India Gate'', s_lat = Finite india_gate_lat_double,
       s_lng = Finite india_gate_lng_double, s_city = ''Delhi'' \<rparr>"

definition connaught_place :: bus_stop where
  "connaught_place = \<lparr> s_id = ''stop-2'', s_name = ''Connaught Place'', s_lat = Finite connaught_place_lat_double,
       s_lng = Finite connaught_place_lng_double, s_city = ''Delhi'' \<rparr>"

definition karol_bagh :: bus_stop where
  "karol_bagh = \<lparr> s_id = ''stop-3'', s_name = ''Karol Bagh'', s_lat = Finite karol_bagh_lat_double,
       s_lng = Finite karol_bagh_lng_double, s_city = ''Delhi'' \<rparr>"

definition red_line :: route where
  "red_line = \<lparr> r_id = ''route-0'', r_name = ''Red Line'',
                r_stops = [''stop-0'', ''stop-1'', ''stop-2'', ''stop-3''],
                r_distance_km = Finite (51 / 2), r_estimated_duration_minutes = 45,
                r_city = ''Delhi'' \<rparr>"

text \<open>A bus of the Red Line standing at Red Fort.\<close>

definition bus_at_red_fort :: "string \<Rightarrow> string \<Rightarrow> int \<Rightarrow> int \<Rightarrow> string \<Rightarrow> bus" where
  "bus_at_red_fort ident number cap occ st =
     \<lparr> b_id = ident, bus_number = number, route_id = ''route-0'', capacity = cap,
       current_occupancy = occ, current_lat = Finite red_fort_lat_double,
       current_lng = Finite red_fort_lng_double,
       current_stop_index = 0, direction = 1, status = st, last_updated = 0 \<rparr>"

definition delhi_db :: "bus list \<Rightarrow> database" where
  "delhi_db bs = \<lparr> bus_stops = [red_fort, india_gate, connaught_place, karol_bagh],
                   routes = [red_line], buses = bs \<rparr>"

text \<open>An environment whose every draw is \<open>raw\<close>, at ten o'clock.\<close>

definition const_env :: "nat \<Rightarrow> environment" where
  "const_env raw = \<lparr> random_raw = (\<lambda>k. raw), clock_minutes = (\<lambda>k. 600) \<rparr>"

text \<open>An environment whose first draw is \<open>a\<close> and every later one \<open>b\<close>.\<close>

definition two_draw_env :: "nat \<Rightarrow> nat \<Rightarrow> environment" where
  "two_draw_env a b =
     \<lparr> random_raw = (\<lambda>k. if k = 0 then a else b), clock_minutes = (\<lambda>k. 600) \<rparr>"

text \<open>The query of the scenarios, and one for two names no stop has.\<close>

definition red_fort_to_india_gate :: bus_query where
  "red_fort_to_india_gate = \<lparr> from_stop = ''Red Fort'', to_stop = ''India Gate'' \<rparr>"

definition unknown_stops_query :: bus_query where
  "unknown_stops_query = \<lparr> from_stop = ''NoSuchStop'', to_stop = ''AlsoMissing'' \<rparr>"

text \<open>
  A second catalog, on the equator: two stops, the line between them, one bus about one
  kilometre north of the first stop (latitude 0.008993216059187306) and one bus at the
  first stop.
\<close>

definition one_km_north :: rat where
  "one_km_north = 648029511888293 / 72057594037927936"

definition equator_west :: bus_stop where
  "equator_west = \<lparr> s_id = ''stop-w'', s_name = ''Equator West'', s_lat = Finite 0,
                    s_lng = Finite 0, s_city = ''Sample'' \<rparr>"

definition equator_east :: bus_stop where
  "equator_east = \<lparr> s_id = ''stop-e'', s_name = ''Equator East'', s_lat = Finite 0,
                    s_lng = Finite 1, s_city = ''Sample'' \<rparr>"

definition equator_line :: route where
  "equator_line = \<lparr> r_id = ''route-e'', r_name = ''Equator Line'',
                    r_stops = [''stop-w'', ''stop-e''],
                    r_distance_km = Finite 111, r_estimated_duration_minutes = 120,
                    r_city = ''Sample'' \<rparr>"

definition bus_north :: bus where
  "bus_north =
     \<lparr> b_id = ''bus-n'', bus_number = ''EQ-01'', route_id = ''route-e'', capacity = 40,
       current_occupancy = 10, current_lat = Finite one_km_north, current_lng = Finite 0,
       current_stop_index = 0, direction = 1, status = ''active'', last_updated = 0 \<rparr>"

definition bus_at_west :: bus where
  "bus_at_west =
     \<lparr> b_id = ''bus-w'', bus_number = ''EQ-02'', route_id = ''route-e'', capacity = 40,
       current_occupancy = 10, current_lat = Finite 0, current_lng = Finite 0,
       current_stop_index = 0, direction = 1, status = ''active'', last_updated = 0 \<rparr>"

definition equator_db :: database where
  "equator_db = \<lparr> bus_stops = [equator_west, equator_east], routes = [equator_line],
                  buses = [bus_north, bus_at_west] \<rparr>"

definition west_to_east :: bus_query where
  "west_to_east = \<lparr> from_stop = ''Equator West'', to_stop = ''Equator East'' \<rparr>"

text \<open>A fleet of three buses, one of each status, and a database with no bus at all.\<close>

definition mixed_fleet_db :: database where
  "mixed_fleet_db =
     delhi_db [bus_at_red_fort ''bus-1'' ''DL-01'' 40 10 ''active'',
               bus_at_red_fort ''bus-2'' ''DL-02'' 40 5 ''maintenance'',
               bus_at_red_fort ''bus-3'' ''DL-03'' 40 30 ''offline'']"

definition empty_db :: database where
  "empty_db = \<lparr> bus_stops = [], routes = [], buses = [] \<rparr>"

section \<open>Evaluating the rounding\<close>

lemma ilog2_bounds:
  assumes "x \<noteq> 0"
  shows "2 powi (ilog2 x) \<le> \<bar>x\<bar> \<and> \<bar>x\<bar> < 2 powi (ilog2 x + 1)"
proof -
  obtain p q where pq: "quotient_of x = (p, q)" by (cases "quotient_of x")
  then have q: "0 < q" by (rule quotient_of_denom_pos)
  have x: "x = of_int p / of_int q" using pq by (simp add: quotient_of_div)
  with assms have p: "0 < \<bar>p\<bar>" by auto
  define k where "k = bitlen \<bar>p\<bar> - bitlen q"
  have ax: "\<bar>x\<bar> = of_int \<bar>p\<bar> / of_int q" using x q by (simp add: abs_divide)
  have bp: "1 \<le> bitlen \<bar>p\<bar>" using p by (auto simp: bitlen_alt_def)
  have bq: "1 \<le> bitlen q" using q by (auto simp: bitlen_alt_def)
  have p_lo: "(2::rat) powi (bitlen \<bar>p\<bar> - 1) \<le> of_int \<bar>p\<bar>"
  proof -
    have "(2::int) ^ nat (bitlen \<bar>p\<bar> - 1) \<le> \<bar>p\<bar>" using bitlen_bounds [OF p] by simp
    then have "(of_int ((2::int) ^ nat (bitlen \<bar>p\<bar> - 1)) :: rat) \<le> of_int \<bar>p\<bar>"
      by (simp only: of_int_le_iff)
    then show ?thesis using bp by (simp add: power_int_def)
  qed
  have p_hi: "of_int \<bar>p\<bar> < (2::rat) powi (bitlen \<bar>p\<bar>)"
  proof -
    have "\<bar>p\<bar> < (2::int) ^ nat (bitlen \<bar>p\<bar>)" using bitlen_bounds [OF p] by simp
    then have "(of_int \<bar>p\<bar> :: rat) < of_int ((2::int) ^ nat (bitlen \<bar>p\<bar>))"
      by (simp only: of_int_less_iff)
    then show ?thesis using bp by (simp add: power_int_def)
  qed
  have q_lo: "(2::rat) powi (bitlen q - 1) \<le> of_int q"
  proof -
    have "(2::int) ^ nat (bitlen q - 1) \<le> q" using bitlen_bounds [OF q] by simp
    then have "(of_int ((2::int) ^ nat (bitlen q - 1)) :: rat) \<le> of_int q"
      by (simp only: of_int_le_iff)
    then show ?thesis using bq by (simp add: power_int_def)
  qed
  have q_hi: "of_int q < (2::rat) powi (bitlen q)"
  proof -
    have "q < (2::int) ^ nat (bitlen q)" using bitlen_bounds [OF q] by simp
    then have "(of_int q :: rat) < of_int ((2::int) ^ nat (bitlen q))"
      by (simp only: of_int_less_iff)
    then show ?thesis using bq by (simp add: power_int_def)
  qed
  have qpos: "(0::rat) < of_int q" using q by simp
  have pw: "0 < (2::rat) powi j" for j by (simp add: power_int_def)
  have hi: "\<bar>x\<bar> < 2 powi (k + 1)"
  proof -
    have "of_int \<bar>p\<bar> < (2::rat) powi (bitlen \<bar>p\<bar>)" by (rule p_hi)
    also have "\<dots> = 2 powi (k + 1) * 2 powi (bitlen q - 1)"
      by (simp add: k_def power_int_add [symmetric])
    also have "\<dots> \<le> 2 powi (k + 1) * of_int q"
      using q_lo pw [of "k + 1"] by (simp add: mult_left_mono)
    finally show ?thesis using qpos by (simp add: ax pos_divide_less_eq)
  qed
  have lo: "2 powi (k - 1) \<le> \<bar>x\<bar>"
  proof -
    have "2 powi (k - 1) * of_int q \<le> 2 powi (k - 1) * (2::rat) powi (bitlen q)"
      using q_hi pw [of "k - 1"] by (simp add: mult_left_mono)
    also have "\<dots> = 2 powi (bitlen \<bar>p\<bar> - 1)"
      by (simp add: k_def power_int_add [symmetric])
    also have "\<dots> \<le> of_int \<bar>p\<bar>" by (rule p_lo)
    finally show ?thesis using qpos by (simp add: ax pos_le_divide_eq)
  qed
  have il: "ilog2 x = (if 2 powi k \<le> \<bar>x\<bar> then k else k - 1)"
    by (simp add: ilog2_def pq k_def Let_def)
  show ?thesis
  proof (cases "2 powi k \<le> \<bar>x\<bar>")
    case True
    with hi il show ?thesis by simp
  next
    case False
    with lo il show ?thesis by simp
  qed
qed

lemma ilog2_unique:
  assumes "x \<noteq> 0" and lo: "2 powi k \<le> \<bar>x\<bar>" and hi: "\<bar>x\<bar> < 2 powi (k + 1)"
  shows "ilog2 x = k"
proof -
  from ilog2_bounds [OF assms(1)]
  have b1: "2 powi (ilog2 x) \<le> \<bar>x\<bar>" and b2: "\<bar>x\<bar> < 2 powi (ilog2 x + 1)" by simp_all
  have lt1: "(2::rat) powi k < 2 powi (ilog2 x + 1)" using lo b2 by simp
  have c1: "k < ilog2 x + 1"
  proof (rule ccontr)
    assume "\<not> k < ilog2 x + 1"
    then have "(2::rat) powi (ilog2 x + 1) \<le> 2 powi k"
      by (intro power_int_increasing) simp_all
    with lt1 show False by simp
  qed
  have lt2: "(2::rat) powi (ilog2 x) < 2 powi (k + 1)" using b1 hi by simp
  have c2: "ilog2 x < k + 1"
  proof (rule ccontr)
    assume "\<not> ilog2 x < k + 1"
    then have "(2::rat) powi (k + 1) \<le> 2 powi (ilog2 x)"
      by (intro power_int_increasing) simp_all
    with lt2 show False by simp
  qed
  from c1 c2 show ?thesis by simp
qed

lemma floor_rat_numeral_div:
  "\<lfloor>(numeral a :: rat) / numeral b\<rfloor> = numeral a div numeral b"
  by (metis floor_divide_of_int_eq of_int_numeral)

lemma floor_rat_neg_numeral_div:
  "\<lfloor>- ((numeral a :: rat) / numeral b)\<rfloor> = (- numeral a) div numeral b"
  by (metis floor_divide_of_int_eq of_int_numeral of_int_minus minus_divide_left)

text \<open>
  The rounding of a number below \<open>2 ^ 53\<close> in size, from its binary exponent \<open>k\<close> and
  the rounded significand \<open>m\<close>.
\<close>

lemma round_double_eval_small:
  assumes "x \<noteq> 0" and "2 powi k \<le> \<bar>x\<bar>" and "\<bar>x\<bar> < 2 powi (k + 1)"
    and "max (k - 52) (- 1074) = - int n"
    and "round_half_even (x * 2 ^ n) = m"
    and "\<bar>m\<bar> \<le> 2 ^ 53"
  shows "round_double x = Finite (of_int m / 2 ^ n)"
proof -
  have il: "ilog2 x = k" using assms(1-3) by (rule ilog2_unique)
  have sc: "(2::rat) powi (- int n) = 1 / 2 ^ n"
    by (simp add: power_int_def power_one_over)
  have "\<bar>(of_int m :: rat) / 2 ^ n\<bar> = of_int \<bar>m\<bar> / 2 ^ n" by simp
  also have "\<dots> \<le> of_int \<bar>m\<bar>"
  proof -
    have "(1::rat) \<le> 2 ^ n" by simp
    then have "(of_int \<bar>m\<bar> :: rat) * 1 \<le> of_int \<bar>m\<bar> * 2 ^ n"
      by (intro mult_left_mono) simp_all
    then show ?thesis by (simp add: divide_le_eq)
  qed
  also have "\<dots> \<le> 2 ^ 53" using assms(6)
    by (metis of_int_le_iff of_int_numeral of_int_power)
  also have "\<dots> < (2::rat) ^ 1024" by (intro power_strict_increasing) simp_all
  finally have fin: "\<bar>(of_int m :: rat) / 2 ^ n\<bar> < 2 powi 1024" by simp
  show ?thesis
    using assms(1,4,5) fin by (simp add: round_double_def Let_def il sc)
qed

lemma round_half_even_nonneg: "0 \<le> y \<Longrightarrow> 0 \<le> round_half_even y"
proof -
  assume "0 \<le> y"
  then have "0 \<le> \<lfloor>y\<rfloor>" by simp
  then show ?thesis by (simp add: round_half_even_def Let_def)
qed

lemma round_half_even_close: "\<bar>of_int (round_half_even y) - y\<bar> \<le> 1"
proof -
  have lo: "of_int \<lfloor>y\<rfloor> \<le> y" and hi: "y < of_int \<lfloor>y\<rfloor> + 1" by linarith+
  have "round_half_even y = \<lfloor>y\<rfloor> \<or> round_half_even y = \<lfloor>y\<rfloor> + 1"
    by (simp add: round_half_even_def Let_def)
  then show ?thesis
  proof
    assume "round_half_even y = \<lfloor>y\<rfloor>"
    with lo hi show ?thesis by simp
  next
    assume "round_half_even y = \<lfloor>y\<rfloor> + 1"
    with lo hi show ?thesis by simp
  qed
qed

lemma pow2_pos: "0 < (2::rat) powi k"
  by (simp add: power_int_def)

lemma round_double_not_NaN: "round_double x \<noteq> NaN"
  by (simp add: round_double_def Let_def)

lemma round_double_zero: "round_double 0 = Finite 0"
  by (simp add: round_double_def)

lemma round_double_nonneg: "0 \<le> x \<Longrightarrow> \<not> float_negative (round_double x)"
proof -
  assume x: "0 \<le> x"
  show ?thesis
  proof (cases "x = 0")
    case True
    then show ?thesis by (simp add: round_double_zero float_negative_def)
  next
    case False
    define e where "e = max (ilog2 x - 52) (- 1074)"
    have "0 \<le> x / 2 powi e" using x pow2_pos [of e] by simp
    then have "0 \<le> round_half_even (x / 2 powi e)" by (rule round_half_even_nonneg)
    then have "(0::rat) \<le> of_int (round_half_even (x / 2 powi e)) * 2 powi e"
      using pow2_pos [of e] by simp
    with False x show ?thesis
      by (simp add: round_double_def Let_def e_def float_negative_def)
  qed
qed

text \<open>A number between -1 and 1 rounds to a finite double.\<close>

lemma round_double_unit_finite:
  assumes "\<bar>x\<bar> \<le> 1"
  shows "\<exists>r. round_double x = Finite r"
proof (cases "x = 0")
  case True
  then show ?thesis by (simp add: round_double_zero)
next
  case False
  define e where "e = max (ilog2 x - 52) (- 1074)"
  define m where "m = round_half_even (x / 2 powi e)"
  have k: "ilog2 x \<le> 0"
  proof (rule ccontr)
    assume "\<not> ilog2 x \<le> 0"
    then have "(2::rat) powi 1 \<le> 2 powi (ilog2 x)"
      by (intro power_int_increasing) simp_all
    also have "\<dots> \<le> \<bar>x\<bar>" using ilog2_bounds [OF False] by simp
    finally show False using assms by simp
  qed
  then have e: "e \<le> - 52" by (simp add: e_def)
  have pe: "(2::rat) powi e \<le> 1"
  proof -
    have "(2::rat) powi e \<le> 2 powi 0" using e by (intro power_int_increasing) simp_all
    then show ?thesis by simp
  qed
  have "\<bar>of_int m * 2 powi e - x\<bar> = \<bar>of_int m - x / 2 powi e\<bar> * 2 powi e"
  proof -
    have "of_int m * 2 powi e - x = (of_int m - x / 2 powi e) * 2 powi e"
      using pow2_pos [of e] by (simp add: field_simps)
    then show ?thesis using pow2_pos [of e] by (simp add: abs_mult)
  qed
  also have "\<dots> \<le> 1 * 2 powi e"
    using round_half_even_close [of "x / 2 powi e"] pow2_pos [of e]
    by (intro mult_right_mono) (simp_all add: m_def)
  also have "\<dots> \<le> 1" using pe by simp
  finally have "\<bar>of_int m * 2 powi e - x\<bar> \<le> 1" .
  with assms have "\<bar>of_int m * 2 powi e\<bar> \<le> (2::rat)" by linarith
  also have "\<dots> < 2 powi 1024"
  proof -
    have "(2::rat) powi 1 < 2 powi 1024" by (intro power_int_strict_increasing) simp_all
    then show ?thesis by simp
  qed
  finally have "\<bar>of_int m * 2 powi e\<bar> < (2::rat) powi 1024" .
  with False show ?thesis
    by (simp add: round_double_def Let_def e_def [symmetric] m_def [symmetric])
qed

lemma float_mul_zero_right: "float_mul (Finite a) (Finite 0) = Finite 0"
  by (simp add: round_double_zero)

lemma float_mul_pos_not_negative:
  assumes "0 < c" and "\<not> float_negative y"
  shows "\<not> float_negative (float_mul (Finite c) y)"
proof (cases y)
  case (Finite r)
  with assms have "0 \<le> c * r" by (simp add: float_negative_def)
  then show ?thesis using Finite by (simp add: round_double_nonneg)
next
  case PInf
  with assms show ?thesis by (simp add: float_negative_def)
next
  case NInf
  with assms show ?thesis by (simp add: float_negative_def)
next
  case NaN
  then show ?thesis by (simp add: float_negative_def)
qed

text \<open>
  The roundings that the scenarios below go through, one lemma each: the exact result of
  an operation on the left, the double it rounds to on the right.
\<close>

lemma round_double_3_8: "round_double (3 / 8) = Finite (3 / 8)"
proof -
  have "round_double (3 / 8) = Finite (of_int (6755399441055744) / 2 ^ 54)"
    by (rule round_double_eval_small [where k = "- 2"])
       (simp_all add: round_half_even_def Let_def power_int_def power_one_over
          floor_rat_numeral_div floor_rat_neg_numeral_div)
  then show ?thesis by simp
qed

lemma round_double_75_2: "round_double (75 / 2) = Finite (75 / 2)"
proof -
  have "round_double (75 / 2) = Finite (of_int (5277655813324800) / 2 ^ 47)"
    by (rule round_double_eval_small [where k = "5"])
       (simp_all add: round_half_even_def Let_def power_int_def power_one_over
          floor_rat_numeral_div floor_rat_neg_numeral_div)
  then show ?thesis by simp
qed

lemma round_double_39_40: "round_double (39 / 40) = Finite (8782019273372467 / 9007199254740992)"
proof -
  have "round_double (39 / 40) = Finite (of_int (8782019273372467) / 2 ^ 53)"
    by (rule round_double_eval_small [where k = "- 1"])
       (simp_all add: round_half_even_def Let_def power_int_def power_one_over
          floor_rat_numeral_div floor_rat_neg_numeral_div)
  then show ?thesis by simp
qed

lemma round_double_39_40_x100: "round_double (219550481834311675 / 2251799813685248) = Finite (195 / 2)"
proof -
  have "round_double (219550481834311675 / 2251799813685248) = Finite (of_int (6860952557322240) / 2 ^ 46)"
    by (rule round_double_eval_small [where k = "6"])
       (simp_all add: round_half_even_def Let_def power_int_def power_one_over
          floor_rat_numeral_div floor_rat_neg_numeral_div)
  then show ?thesis by simp
qed

lemma round_double_1_8: "round_double (1 / 8) = Finite (1 / 8)"
proof -
  have "round_double (1 / 8) = Finite (of_int (4503599627370496) / 2 ^ 55)"
    by (rule round_double_eval_small [where k = "- 3"])
       (simp_all add: round_half_even_def Let_def power_int_def power_one_over
          floor_rat_numeral_div floor_rat_neg_numeral_div)
  then show ?thesis by simp
qed

lemma round_double_25_2: "round_double (25 / 2) = Finite (25 / 2)"
proof -
  have "round_double (25 / 2) = Finite (of_int (7036874417766400) / 2 ^ 49)"
    by (rule round_double_eval_small [where k = "3"])
       (simp_all add: round_half_even_def Let_def power_int_def power_one_over
          floor_rat_numeral_div floor_rat_neg_numeral_div)
  then show ?thesis by simp
qed

lemma round_double_1_4: "round_double (1 / 4) = Finite (1 / 4)"
proof -
  have "round_double (1 / 4) = Finite (of_int (4503599627370496) / 2 ^ 54)"
    by (rule round_double_eval_small [where k = "- 2"])
       (simp_all add: round_half_even_def Let_def power_int_def power_one_over
          floor_rat_numeral_div floor_rat_neg_numeral_div)
  then show ?thesis by simp
qed

lemma round_double_25: "round_double (25) = Finite (25)"
proof -
  have "round_double (25) = Finite (of_int (7036874417766400) / 2 ^ 48)"
    by (rule round_double_eval_small [where k = "4"])
       (simp_all add: round_half_even_def Let_def power_int_def power_one_over
          floor_rat_numeral_div floor_rat_neg_numeral_div)
  then show ?thesis by simp
qed

lemma round_double_29_100: "round_double (29 / 100) = Finite (5224175567749775 / 18014398509481984)"
proof -
  have "round_double (29 / 100) = Finite (of_int (5224175567749775) / 2 ^ 54)"
    by (rule round_double_eval_small [where k = "- 2"])
       (simp_all add: round_half_even_def Let_def power_int_def power_one_over
          floor_rat_numeral_div floor_rat_neg_numeral_div)
  then show ?thesis by simp
qed

lemma round_double_29_100_x100: "round_double (130604389193744375 / 4503599627370496) = Finite (8162774324609023 / 281474976710656)"
proof -
  have "round_double (130604389193744375 / 4503599627370496) = Finite (of_int (8162774324609023) / 2 ^ 48)"
    by (rule round_double_eval_small [where k = "4"])
       (simp_all add: round_half_even_def Let_def power_int_def power_one_over
          floor_rat_numeral_div floor_rat_neg_numeral_div)
  then show ?thesis by simp
qed

lemma round_double_tenth: "round_double (3602879701896397 / 36028797018963968) = Finite (3602879701896397 / 36028797018963968)"
proof -
  have "round_double (3602879701896397 / 36028797018963968) = Finite (of_int (7205759403792794) / 2 ^ 56)"
    by (rule round_double_eval_small [where k = "- 4"])
       (simp_all add: round_half_even_def Let_def power_int_def power_one_over
          floor_rat_numeral_div floor_rat_neg_numeral_div)
  then show ?thesis by simp
qed

lemma round_double_tenth_minus_one: "round_double (- (32425917317067571 / 36028797018963968)) = Finite (- (8106479329266893 / 9007199254740992))"
proof -
  have "round_double (- (32425917317067571 / 36028797018963968)) = Finite (of_int (- 8106479329266893) / 2 ^ 53)"
    by (rule round_double_eval_small [where k = "- 1"])
       (simp_all add: round_half_even_def Let_def power_int_def power_one_over
          floor_rat_numeral_div floor_rat_neg_numeral_div)
  then show ?thesis by simp
qed

lemma round_double_tenth_diff: "round_double (- (8106479329266893 / 9007199254740992)) = Finite (- (8106479329266893 / 9007199254740992))"
proof -
  have "round_double (- (8106479329266893 / 9007199254740992)) = Finite (of_int (- 8106479329266893) / 2 ^ 53)"
    by (rule round_double_eval_small [where k = "- 1"])
       (simp_all add: round_half_even_def Let_def power_int_def power_one_over
          floor_rat_numeral_div floor_rat_neg_numeral_div)
  then show ?thesis by simp
qed

lemma round_double_tenth_back: "round_double (900719925474099 / 9007199254740992) = Finite (900719925474099 / 9007199254740992)"
proof -
  have "round_double (900719925474099 / 9007199254740992) = Finite (of_int (7205759403792792) / 2 ^ 56)"
    by (rule round_double_eval_small [where k = "- 4"])
       (simp_all add: round_half_even_def Let_def power_int_def power_one_over
          floor_rat_numeral_div floor_rat_neg_numeral_div)
  then show ?thesis by simp
qed

lemma round_double_one: "round_double (1) = Finite (1)"
proof -
  have "round_double (1) = Finite (of_int (4503599627370496) / 2 ^ 52)"
    by (rule round_double_eval_small [where k = "0"])
       (simp_all add: round_half_even_def Let_def power_int_def power_one_over
          floor_rat_numeral_div floor_rat_neg_numeral_div)
  then show ?thesis by simp
qed

lemma round_double_1_2: "round_double (1 / 2) = Finite (1 / 2)"
proof -
  have "round_double (1 / 2) = Finite (of_int (4503599627370496) / 2 ^ 53)"
    by (rule round_double_eval_small [where k = "- 1"])
       (simp_all add: round_half_even_def Let_def power_int_def power_one_over
          floor_rat_numeral_div floor_rat_neg_numeral_div)
  then show ?thesis by simp
qed

lemma round_double_3_4: "round_double (3 / 4) = Finite (3 / 4)"
proof -
  have "round_double (3 / 4) = Finite (of_int (6755399441055744) / 2 ^ 53)"
    by (rule round_double_eval_small [where k = "- 1"])
       (simp_all add: round_half_even_def Let_def power_int_def power_one_over
          floor_rat_numeral_div floor_rat_neg_numeral_div)
  then show ?thesis by simp
qed

lemma round_double_red_fort_lat_double_literal: "round_double (143281 / 5000) = Finite (red_fort_lat_double)"
proof -
  have "round_double (143281 / 5000) = Finite (of_int (8066003227615900) / 2 ^ 48)"
    by (rule round_double_eval_small [where k = "4"])
       (simp_all add: round_half_even_def Let_def power_int_def power_one_over
          floor_rat_numeral_div floor_rat_neg_numeral_div)
  then show ?thesis by (simp add: red_fort_lat_double_def)
qed

lemma round_double_red_fort_lat_double: "round_double (2016500806903975 / 70368744177664) = Finite (2016500806903975 / 70368744177664)"
proof -
  have "round_double (2016500806903975 / 70368744177664) = Finite (of_int (8066003227615900) / 2 ^ 48)"
    by (rule round_double_eval_small [where k = "4"])
       (simp_all add: round_half_even_def Let_def power_int_def power_one_over
          floor_rat_numeral_div floor_rat_neg_numeral_div)
  then show ?thesis by simp
qed

lemma round_double_red_fort_lng_double_literal: "round_double (77241 / 1000) = Finite (red_fort_lng_double)"
proof -
  have "round_double (77241 / 1000) = Finite (of_int (5435352169026945) / 2 ^ 46)"
    by (rule round_double_eval_small [where k = "6"])
       (simp_all add: round_half_even_def Let_def power_int_def power_one_over
          floor_rat_numeral_div floor_rat_neg_numeral_div)
  then show ?thesis by (simp add: red_fort_lng_double_def)
qed

lemma round_double_red_fort_lng_double: "round_double (5435352169026945 / 70368744177664) = Finite (5435352169026945 / 70368744177664)"
proof -
  have "round_double (5435352169026945 / 70368744177664) = Finite (of_int (5435352169026945) / 2 ^ 46)"
    by (rule round_double_eval_small [where k = "6"])
       (simp_all add: round_half_even_def Let_def power_int_def power_one_over
          floor_rat_numeral_div floor_rat_neg_numeral_div)
  then show ?thesis by simp
qed

lemma round_double_india_gate_lat_double_literal: "round_double (286129 / 10000) = Finite (india_gate_lat_double)"
proof -
  have "round_double (286129 / 10000) = Finite (of_int (8053815361124329) / 2 ^ 48)"
    by (rule round_double_eval_small [where k = "4"])
       (simp_all add: round_half_even_def Let_def power_int_def power_one_over
          floor_rat_numeral_div floor_rat_neg_numeral_div)
  then show ?thesis by (simp add: india_gate_lat_double_def)
qed

lemma round_double_india_gate_lat_double: "round_double (8053815361124329 / 281474976710656) = Finite (8053815361124329 / 281474976710656)"
proof -
  have "round_double (8053815361124329 / 281474976710656) = Finite (of_int (8053815361124329) / 2 ^ 48)"
    by (rule round_double_eval_small [where k = "4"])
       (simp_all add: round_half_even_def Let_def power_int_def power_one_over
          floor_rat_numeral_div floor_rat_neg_numeral_div)
  then show ?thesis by simp
qed

lemma round_double_india_gate_lng_double_literal: "round_double (154459 / 2000) = Finite (india_gate_lng_double)"
proof -
  have "round_double (154459 / 2000) = Finite (of_int (5434542928468902) / 2 ^ 46)"
    by (rule round_double_eval_small [where k = "6"])
       (simp_all add: round_half_even_def Let_def power_int_def power_one_over
          floor_rat_numeral_div floor_rat_neg_numeral_div)
  then show ?thesis by (simp add: india_gate_lng_double_def)
qed

lemma round_double_india_gate_lng_double: "round_double (2717271464234451 / 35184372088832) = Finite (2717271464234451 / 35184372088832)"
proof -
  have "round_double (2717271464234451 / 35184372088832) = Finite (of_int (5434542928468902) / 2 ^ 46)"
    by (rule round_double_eval_small [where k = "6"])
       (simp_all add: round_half_even_def Let_def power_int_def power_one_over
          floor_rat_numeral_div floor_rat_neg_numeral_div)
  then show ?thesis by simp
qed

lemma round_double_connaught_place_lat_double_literal: "round_double (57263 / 2000) = Finite (connaught_place_lat_double)"
proof -
  have "round_double (57263 / 2000) = Finite (of_int (8059050795691147) / 2 ^ 48)"
    by (rule round_double_eval_small [where k = "4"])
       (simp_all add: round_half_even_def Let_def power_int_def power_one_over
          floor_rat_numeral_div floor_rat_neg_numeral_div)
  then show ?thesis by (simp add: connaught_place_lat_double_def)
qed

lemma round_double_connaught_place_lng_double_literal: "round_double (772167 / 10000) = Finite (connaught_place_lng_double)"
proof -
  have "round_double (772167 / 10000) = Finite (of_int (5433642208543428) / 2 ^ 46)"
    by (rule round_double_eval_small [where k = "6"])
       (simp_all add: round_half_even_def Let_def power_int_def power_one_over
          floor_rat_numeral_div floor_rat_neg_numeral_div)
  then show ?thesis by (simp add: connaught_place_lng_double_def)
qed

lemma round_double_karol_bagh_lat_double_literal: "round_double (286519 / 10000) = Finite (karol_bagh_lat_double)"
proof -
  have "round_double (286519 / 10000) = Finite (of_int (8064792885216045) / 2 ^ 48)"
    by (rule round_double_eval_small [where k = "4"])
       (simp_all add: round_half_even_def Let_def power_int_def power_one_over
          floor_rat_numeral_div floor_rat_neg_numeral_div)
  then show ?thesis by (simp add: karol_bagh_lat_double_def)
qed

lemma round_double_karol_bagh_lng_double_literal: "round_double (771909 / 10000) = Finite (karol_bagh_lng_double)"
proof -
  have "round_double (771909 / 10000) = Finite (of_int (5431826694943644) / 2 ^ 46)"
    by (rule round_double_eval_small [where k = "6"])
       (simp_all add: round_half_even_def Let_def power_int_def power_one_over
          floor_rat_numeral_div floor_rat_neg_numeral_div)
  then show ?thesis by (simp add: karol_bagh_lng_double_def)
qed

lemma round_double_delta_lat: "round_double (- (12187866491571 / 281474976710656)) = Finite (- (12187866491571 / 281474976710656))"
proof -
  have "round_double (- (12187866491571 / 281474976710656)) = Finite (of_int (- 6240187643684352) / 2 ^ 57)"
    by (rule round_double_eval_small [where k = "- 5"])
       (simp_all add: round_half_even_def Let_def power_int_def power_one_over
          floor_rat_numeral_div floor_rat_neg_numeral_div)
  then show ?thesis by simp
qed

lemma round_double_delta_lng: "round_double (- (809240558043 / 70368744177664)) = Finite (- (809240558043 / 70368744177664))"
proof -
  have "round_double (- (809240558043 / 70368744177664)) = Finite (of_int (- 6629298651488256) / 2 ^ 59)"
    by (rule round_double_eval_small [where k = "- 7"])
       (simp_all add: round_half_even_def Let_def power_int_def power_one_over
          floor_rat_numeral_div floor_rat_neg_numeral_div)
  then show ?thesis by simp
qed

lemma round_double_pi_over_180: "round_double (176855943800711 / 10133099161583616) = Finite (deg_to_rad)"
proof -
  have "round_double (176855943800711 / 10133099161583616) = Finite (of_int (5030569068109113) / 2 ^ 58)"
    by (rule round_double_eval_small [where k = "- 6"])
       (simp_all add: round_half_even_def Let_def power_int_def power_one_over
          floor_rat_numeral_div floor_rat_neg_numeral_div)
  then show ?thesis by (simp add: deg_to_rad_def)
qed

lemma round_double_step_01: "round_double (25152845340545565 / 576460752303423488) = Finite (6288211335136391 / 144115188075855872)"
proof -
  have "round_double (25152845340545565 / 576460752303423488) = Finite (of_int (6288211335136391) / 2 ^ 57)"
    by (rule round_double_eval_small [where k = "- 5"])
       (simp_all add: round_half_even_def Let_def power_int_def power_one_over
          floor_rat_numeral_div floor_rat_neg_numeral_div)
  then show ?thesis by simp
qed

lemma round_double_step_02: "round_double (- (25152845340545565 / 576460752303423488)) = Finite (- (6288211335136391 / 144115188075855872))"
proof -
  have "round_double (- (25152845340545565 / 576460752303423488)) = Finite (of_int (- 6288211335136391) / 2 ^ 57)"
    by (rule round_double_eval_small [where k = "- 5"])
       (simp_all add: round_half_even_def Let_def power_int_def power_one_over
          floor_rat_numeral_div floor_rat_neg_numeral_div)
  then show ?thesis by simp
qed

lemma round_double_step_03: "round_double (- 5) = Finite (- 5)"
proof -
  have "round_double (- 5) = Finite (of_int (- 5629499534213120) / 2 ^ 50)"
    by (rule round_double_eval_small [where k = "2"])
       (simp_all add: round_half_even_def Let_def power_int_def power_one_over
          floor_rat_numeral_div floor_rat_neg_numeral_div)
  then show ?thesis by simp
qed

lemma round_double_step_04: "round_double (- (25152845340545565 / 288230376151711744)) = Finite (- (6288211335136391 / 72057594037927936))"
proof -
  have "round_double (- (25152845340545565 / 288230376151711744)) = Finite (of_int (- 6288211335136391) / 2 ^ 56)"
    by (rule round_double_eval_small [where k = "- 4"])
       (simp_all add: round_half_even_def Let_def power_int_def power_one_over
          floor_rat_numeral_div floor_rat_neg_numeral_div)
  then show ?thesis by simp
qed

lemma round_double_step_05: "round_double (180) = Finite (180)"
proof -
  have "round_double (180) = Finite (of_int (6333186975989760) / 2 ^ 45)"
    by (rule round_double_eval_small [where k = "7"])
       (simp_all add: round_half_even_def Let_def power_int_def power_one_over
          floor_rat_numeral_div floor_rat_neg_numeral_div)
  then show ?thesis by simp
qed

lemma round_double_step_06: "round_double (226375608064910085 / 72057594037927936) = Finite (884279719003555 / 281474976710656)"
proof -
  have "round_double (226375608064910085 / 72057594037927936) = Finite (of_int (7074237752028440) / 2 ^ 51)"
    by (rule round_double_eval_small [where k = "1"])
       (simp_all add: round_half_even_def Let_def power_int_def power_one_over
          floor_rat_numeral_div floor_rat_neg_numeral_div)
  then show ?thesis by simp
qed

lemma round_double_step_07: "round_double (- (6288211335136391 / 144115188075855872)) = Finite (- (6288211335136391 / 144115188075855872))"
proof -
  have "round_double (- (6288211335136391 / 144115188075855872)) = Finite (of_int (- 6288211335136391) / 2 ^ 57)"
    by (rule round_double_eval_small [where k = "- 5"])
       (simp_all add: round_half_even_def Let_def power_int_def power_one_over
          floor_rat_numeral_div floor_rat_neg_numeral_div)
  then show ?thesis by simp
qed

lemma round_double_step_08: "round_double (884279719003555 / 562949953421312) = Finite (884279719003555 / 562949953421312)"
proof -
  have "round_double (884279719003555 / 562949953421312) = Finite (of_int (7074237752028440) / 2 ^ 52)"
    by (rule round_double_eval_small [where k = "0"])
       (simp_all add: round_half_even_def Let_def power_int_def power_one_over
          floor_rat_numeral_div floor_rat_neg_numeral_div)
  then show ?thesis by simp
qed

lemma round_double_step_09: "round_double (39516514288012515596952131362081 / 20769187434139310514121985316880384) = Finite (4387214401548047 / 2305843009213693952)"
proof -
  have "round_double (39516514288012515596952131362081 / 20769187434139310514121985316880384) = Finite (of_int (8774428803096094) / 2 ^ 62)"
    by (rule round_double_eval_small [where k = "- 10"])
       (simp_all add: round_half_even_def Let_def power_int_def power_one_over
          floor_rat_numeral_div floor_rat_neg_numeral_div)
  then show ?thesis by simp
qed

lemma round_double_step_10: "round_double (80975277030669138617253686350929 / 81129638414606681695789005144064) = Finite (4495030849242473 / 4503599627370496)"
proof -
  have "round_double (80975277030669138617253686350929 / 81129638414606681695789005144064) = Finite (of_int (8990061698484946) / 2 ^ 53)"
    by (rule round_double_eval_small [where k = "- 1"])
       (simp_all add: round_half_even_def Let_def power_int_def power_one_over
          floor_rat_numeral_div floor_rat_neg_numeral_div)
  then show ?thesis by simp
qed

lemma round_double_step_11: "round_double (4495030849242473 / 4503599627370496) = Finite (4495030849242473 / 4503599627370496)"
proof -
  have "round_double (4495030849242473 / 4503599627370496) = Finite (of_int (8990061698484946) / 2 ^ 53)"
    by (rule round_double_eval_small [where k = "- 1"])
       (simp_all add: round_half_even_def Let_def power_int_def power_one_over
          floor_rat_numeral_div floor_rat_neg_numeral_div)
  then show ?thesis by simp
qed

lemma round_double_step_12: "round_double (2305843009213694223 / 2305843009213693952) = Finite (4503599627370497 / 4503599627370496)"
proof -
  have "round_double (2305843009213694223 / 2305843009213693952) = Finite (of_int (4503599627370497) / 2 ^ 52)"
    by (rule round_double_eval_small [where k = "0"])
       (simp_all add: round_half_even_def Let_def power_int_def power_one_over
          floor_rat_numeral_div floor_rat_neg_numeral_div)
  then show ?thesis by simp
qed

lemma round_double_step_13: "round_double (- (1 / 4503599627370496)) = Finite (- (1 / 4503599627370496))"
proof -
  have "round_double (- (1 / 4503599627370496)) = Finite (of_int (- 4503599627370496) / 2 ^ 104)"
    by (rule round_double_eval_small [where k = "- 52"])
       (simp_all add: round_half_even_def Let_def power_int_def power_one_over
          floor_rat_numeral_div floor_rat_neg_numeral_div)
  then show ?thesis by simp
qed

lemma round_double_step_14: "round_double (5) = Finite (5)"
proof -
  have "round_double (5) = Finite (of_int (5629499534213120) / 2 ^ 50)"
    by (rule round_double_eval_small [where k = "2"])
       (simp_all add: round_half_even_def Let_def power_int_def power_one_over
          floor_rat_numeral_div floor_rat_neg_numeral_div)
  then show ?thesis by simp
qed

lemma round_double_step_15: "round_double (25152845340545565 / 288230376151711744) = Finite (6288211335136391 / 72057594037927936)"
proof -
  have "round_double (25152845340545565 / 288230376151711744) = Finite (of_int (6288211335136391) / 2 ^ 56)"
    by (rule round_double_eval_small [where k = "- 4"])
       (simp_all add: round_half_even_def Let_def power_int_def power_one_over
          floor_rat_numeral_div floor_rat_neg_numeral_div)
  then show ?thesis by simp
qed

lemma round_double_step_16: "round_double (- 180) = Finite (- 180)"
proof -
  have "round_double (- 180) = Finite (of_int (- 6333186975989760) / 2 ^ 45)"
    by (rule round_double_eval_small [where k = "7"])
       (simp_all add: round_half_even_def Let_def power_int_def power_one_over
          floor_rat_numeral_div floor_rat_neg_numeral_div)
  then show ?thesis by simp
qed

lemma round_double_step_17: "round_double (- (226375608064910085 / 72057594037927936)) = Finite (- (884279719003555 / 281474976710656))"
proof -
  have "round_double (- (226375608064910085 / 72057594037927936)) = Finite (of_int (- 7074237752028440) / 2 ^ 51)"
    by (rule round_double_eval_small [where k = "1"])
       (simp_all add: round_half_even_def Let_def power_int_def power_one_over
          floor_rat_numeral_div floor_rat_neg_numeral_div)
  then show ?thesis by simp
qed

lemma round_double_step_18: "round_double (6288211335136391 / 144115188075855872) = Finite (6288211335136391 / 144115188075855872)"
proof -
  have "round_double (6288211335136391 / 144115188075855872) = Finite (of_int (6288211335136391) / 2 ^ 57)"
    by (rule round_double_eval_small [where k = "- 5"])
       (simp_all add: round_half_even_def Let_def power_int_def power_one_over
          floor_rat_numeral_div floor_rat_neg_numeral_div)
  then show ?thesis by simp
qed

lemma round_double_step_19: "round_double (- (884279719003555 / 562949953421312)) = Finite (- (884279719003555 / 562949953421312))"
proof -
  have "round_double (- (884279719003555 / 562949953421312)) = Finite (of_int (- 7074237752028440) / 2 ^ 52)"
    by (rule round_double_eval_small [where k = "0"])
       (simp_all add: round_half_even_def Let_def power_int_def power_one_over
          floor_rat_numeral_div floor_rat_neg_numeral_div)
  then show ?thesis by simp
qed

lemma round_double_step_20: "round_double (- (4495030849242473 / 4503599627370496)) = Finite (- (4495030849242473 / 4503599627370496))"
proof -
  have "round_double (- (4495030849242473 / 4503599627370496)) = Finite (of_int (- 8990061698484946) / 2 ^ 53)"
    by (rule round_double_eval_small [where k = "- 1"])
       (simp_all add: round_half_even_def Let_def power_int_def power_one_over
          floor_rat_numeral_div floor_rat_neg_numeral_div)
  then show ?thesis by simp
qed

lemma round_double_step_21: "round_double (3259957217727093481251591314109 / 20769187434139310514121985316880384) = Finite (2895423649930867 / 18446744073709551616)"
proof -
  have "round_double (3259957217727093481251591314109 / 20769187434139310514121985316880384) = Finite (of_int (5790847299861734) / 2 ^ 65)"
    by (rule round_double_eval_small [where k = "- 13"])
       (simp_all add: round_half_even_def Let_def power_int_def power_one_over
          floor_rat_numeral_div floor_rat_neg_numeral_div)
  then show ?thesis by simp
qed

lemma round_double_step_22: "round_double (- (648029511888293 / 72057594037927936)) = Finite (- (648029511888293 / 72057594037927936))"
proof -
  have "round_double (- (648029511888293 / 72057594037927936)) = Finite (of_int (- 5184236095106344) / 2 ^ 59)"
    by (rule round_double_eval_small [where k = "- 7"])
       (simp_all add: round_half_even_def Let_def power_int_def power_one_over
          floor_rat_numeral_div floor_rat_neg_numeral_div)
  then show ?thesis by simp
qed

lemma round_double_step_23: "round_double (- (3259957217727093481251591314109 / 20769187434139310514121985316880384)) = Finite (- (2895423649930867 / 18446744073709551616))"
proof -
  have "round_double (- (3259957217727093481251591314109 / 20769187434139310514121985316880384)) = Finite (of_int (- 5790847299861734) / 2 ^ 65)"
    by (rule round_double_eval_small [where k = "- 13"])
       (simp_all add: round_half_even_def Let_def power_int_def power_one_over
          floor_rat_numeral_div floor_rat_neg_numeral_div)
  then show ?thesis by simp
qed

lemma round_double_step_24: "round_double (- (2895423649930867 / 36893488147419103232)) = Finite (- (2895423649930867 / 36893488147419103232))"
proof -
  have "round_double (- (2895423649930867 / 36893488147419103232)) = Finite (of_int (- 5790847299861734) / 2 ^ 66)"
    by (rule round_double_eval_small [where k = "- 14"])
       (simp_all add: round_half_even_def Let_def power_int_def power_one_over
          floor_rat_numeral_div floor_rat_neg_numeral_div)
  then show ?thesis by simp
qed

lemma round_double_step_25: "round_double (33533912381468493993263503038441 / 5444517870735015415413993718908291383296) = Finite (1861506081583447 / 302231454903657293676544)"
proof -
  have "round_double (33533912381468493993263503038441 / 5444517870735015415413993718908291383296) = Finite (of_int (7446024326333788) / 2 ^ 80)"
    by (rule round_double_eval_small [where k = "- 28"])
       (simp_all add: round_half_even_def Let_def power_int_def power_one_over
          floor_rat_numeral_div floor_rat_neg_numeral_div)
  then show ?thesis by simp
qed

lemma round_double_step_26: "round_double (9007199143786583 / 9007199254740992) = Finite (9007199143786583 / 9007199254740992)"
proof -
  have "round_double (9007199143786583 / 9007199254740992) = Finite (of_int (9007199143786583) / 2 ^ 53)"
    by (rule round_double_eval_small [where k = "- 1"])
       (simp_all add: round_half_even_def Let_def power_int_def power_one_over
          floor_rat_numeral_div floor_rat_neg_numeral_div)
  then show ?thesis by simp
qed

lemma round_double_step_27: "round_double (1861506081583447 / 302231454903657293676544) = Finite (1861506081583447 / 302231454903657293676544)"
proof -
  have "round_double (1861506081583447 / 302231454903657293676544) = Finite (of_int (7446024326333788) / 2 ^ 80)"
    by (rule round_double_eval_small [where k = "- 28"])
       (simp_all add: round_half_even_def Let_def power_int_def power_one_over
          floor_rat_numeral_div floor_rat_neg_numeral_div)
  then show ?thesis by simp
qed

lemma round_double_step_28: "round_double (302231453042151212093097 / 302231454903657293676544) = Finite (2251799799815947 / 2251799813685248)"
proof -
  have "round_double (302231453042151212093097 / 302231454903657293676544) = Finite (of_int (9007199199263788) / 2 ^ 53)"
    by (rule round_double_eval_small [where k = "- 1"])
       (simp_all add: round_half_even_def Let_def power_int_def power_one_over
          floor_rat_numeral_div floor_rat_neg_numeral_div)
  then show ?thesis by simp
qed

lemma round_double_step_29: "round_double (5790847299861733 / 36893488147419103232) = Finite (5790847299861733 / 36893488147419103232)"
proof -
  have "round_double (5790847299861733 / 36893488147419103232) = Finite (of_int (5790847299861733) / 2 ^ 65)"
    by (rule round_double_eval_small [where k = "- 13"])
       (simp_all add: round_half_even_def Let_def power_int_def power_one_over
          floor_rat_numeral_div floor_rat_neg_numeral_div)
  then show ?thesis by simp
qed

lemma round_double_step_30: "round_double (36893488147419100943 / 36893488147419103232) = Finite (9007199254740991 / 9007199254740992)"
proof -
  have "round_double (36893488147419100943 / 36893488147419103232) = Finite (of_int (9007199254740991) / 2 ^ 53)"
    by (rule round_double_eval_small [where k = "- 1"])
       (simp_all add: round_half_even_def Let_def power_int_def power_one_over
          floor_rat_numeral_div floor_rat_neg_numeral_div)
  then show ?thesis by simp
qed

lemma round_double_step_31: "round_double (9007199254740991 / 180143985094819840) = Finite (7205759403792793 / 144115188075855872)"
proof -
  have "round_double (9007199254740991 / 180143985094819840) = Finite (of_int (7205759403792793) / 2 ^ 57)"
    by (rule round_double_eval_small [where k = "- 5"])
       (simp_all add: round_half_even_def Let_def power_int_def power_one_over
          floor_rat_numeral_div floor_rat_neg_numeral_div)
  then show ?thesis by simp
qed

lemma round_double_step_32: "round_double (108086391056891895 / 36028797018963968) = Finite (6755399441055743 / 2251799813685248)"
proof -
  have "round_double (108086391056891895 / 36028797018963968) = Finite (of_int (6755399441055743) / 2 ^ 51)"
    by (rule round_double_eval_small [where k = "1"])
       (simp_all add: round_half_even_def Let_def power_int_def power_one_over
          floor_rat_numeral_div floor_rat_neg_numeral_div)
  then show ?thesis by simp
qed

lemma round_double_step_33: "round_double (10144146585028203933789013424175 / 20282409603651670423947251286016) = Finite (2252453020774193 / 4503599627370496)"
proof -
  have "round_double (10144146585028203933789013424175 / 20282409603651670423947251286016) = Finite (of_int (4504906041548386) / 2 ^ 53)"
    by (rule round_double_eval_small [where k = "- 1"])
       (simp_all add: round_half_even_def Let_def power_int_def power_one_over
          floor_rat_numeral_div floor_rat_neg_numeral_div)
  then show ?thesis by simp
qed

lemma round_double_step_34: "round_double (15618045484823797433173344695929 / 20282409603651670423947251286016) = Finite (3467902739378869 / 4503599627370496)"
proof -
  have "round_double (15618045484823797433173344695929 / 20282409603651670423947251286016) = Finite (of_int (6935805478757738) / 2 ^ 53)"
    by (rule round_double_eval_small [where k = "- 1"])
       (simp_all add: round_half_even_def Let_def power_int_def power_one_over
          floor_rat_numeral_div floor_rat_neg_numeral_div)
  then show ?thesis by simp
qed

lemmas rounding_steps =
  round_double_3_8 round_double_75_2 round_double_39_40 round_double_39_40_x100
  round_double_1_8 round_double_25_2 round_double_1_4 round_double_25 round_double_29_100
  round_double_29_100_x100 round_double_tenth round_double_tenth_minus_one
  round_double_tenth_diff round_double_tenth_back round_double_one round_double_1_2
  round_double_3_4 round_double_step_01 round_double_step_02 round_double_step_03
  round_double_step_04 round_double_step_05 round_double_step_06 round_double_step_07
  round_double_step_08 round_double_step_09 round_double_step_10 round_double_step_11
  round_double_step_12 round_double_step_13 round_double_step_14 round_double_step_15
  round_double_step_16 round_double_step_17 round_double_step_18 round_double_step_19
  round_double_step_20 round_double_step_21 round_double_step_22 round_double_step_23
  round_double_step_24 round_double_step_25 round_double_step_26 round_double_step_27
  round_double_step_28 round_double_step_29 round_double_step_30 round_double_step_31
  round_double_step_32 round_double_step_33 round_double_step_34
  round_double_zero

lemma occupancy_rate_45_120: "occupancy_rate 45 120 = Inr (Finite (75 / 2))"
  by (simp add: occupancy_rate_def int_truediv_def round_double_3_8 round_double_75_2)

text \<open>
  The percentages of the scenarios. The last one shows the rounding of the division: the
  double nearest to 29/100 times 100 is 28.999999999999996, so 29 of 100 seats taken is
  reported as 28 percent.
\<close>

lemma occupancy_pct_39_40: "occupancy_pct 39 40 = Inr 97"
  by (simp add: occupancy_pct_def int_truediv_def round_double_39_40 round_double_39_40_x100
        trunc_rat_def floor_rat_numeral_div)

lemma occupancy_pct_5_40: "occupancy_pct 5 40 = Inr 12"
  by (simp add: occupancy_pct_def int_truediv_def round_double_1_8 round_double_25_2
        trunc_rat_def floor_rat_numeral_div)

lemma occupancy_pct_10_40: "occupancy_pct 10 40 = Inr 25"
  by (simp add: occupancy_pct_def int_truediv_def round_double_1_4 round_double_25
        trunc_rat_def)

lemma occupancy_pct_29_100: "occupancy_pct 29 100 = Inr 28"
  by (simp add: occupancy_pct_def int_truediv_def round_double_29_100 round_double_29_100_x100
        trunc_rat_def floor_rat_numeral_div)

lemma spec_percentages:
  "occupancy_percentage_spec 39 40 = 98" "occupancy_percentage_spec 5 40 = 13"
  by (simp_all add: occupancy_percentage_spec_def round_def floor_rat_numeral_div)

text \<open>The constant of \<^verbatim>\<open>math.radians\<close> is the double nearest to \<open>pi_double / 180\<close>.\<close>

lemma deg_to_rad_rounded: "round_double (pi_double / 180) = Finite deg_to_rad"
  using round_double_pi_over_180 by (simp add: pi_double_def)

section \<open>Sample-data abbreviations for evaluation\<close>

lemmas sample_defs =
  delhi_db_def red_fort_def india_gate_def connaught_place_def karol_bagh_def red_line_def
  bus_at_red_fort_def const_env_def two_draw_env_def red_fort_to_india_gate_def
  unknown_stops_query_def equator_db_def equator_west_def equator_east_def equator_line_def
  bus_north_def bus_at_west_def west_to_east_def

lemmas engine_defs =
  find_one_by_name_def literal_dot_engine_def other_metachars_def printable_def fold_case_def

lemmas loop_defs =
  route_bus_pairs_def routes_containing_both_def mongo_all_def active_buses_on_def
  bus_response_def randint_def strftime_HM_def two_digits_def

section \<open>Properties of the fleet status\<close>

lemma int_truediv_not_zero_division:
  "b \<noteq> 0 \<Longrightarrow> int_truediv a b \<noteq> Inl ZeroDivisionError"
  by (simp add: int_truediv_def split: pyfloat.splits)

lemma occupancy_rate_not_zero_division:
  "occupancy_rate occ cap \<noteq> Inl ZeroDivisionError"
proof (cases "0 < cap")
  case True
  then have "int_truediv occ cap \<noteq> Inl ZeroDivisionError"
    by (intro int_truediv_not_zero_division) simp
  with True show ?thesis
    by (auto simp: occupancy_rate_def split: sum.splits)
next
  case False
  then show ?thesis by (simp add: occupancy_rate_def)
qed

lemma length_filter_not:
  "int (length (filter (\<lambda>x. \<not> P x) xs)) = int (length xs) - int (length (filter P xs))"
  by (induction xs) auto

text \<open>
  Claim C9. The fleet status reports \<open>offline_buses\<close> as \<open>total_buses - active_buses\<close>;
  this is the number of buses whose status is anything but \<open>active\<close>, so a bus in
  \<open>maintenance\<close> counts as offline.
\<close>

theorem fleet_status_offline_counts_non_active:
  "get_fleet_status db = Inr st \<Longrightarrow>
     fs_offline_buses st = fs_total_buses st - fs_active_buses st \<and>
     fs_offline_buses st = int (length (filter (\<lambda>b. status b \<noteq> ''active'') (buses db))) \<and>
     int (length (filter (\<lambda>b. status b = ''maintenance'') (buses db))) \<le> fs_offline_buses st"
proof -
  assume a: "get_fleet_status db = Inr st"
  let ?bs = "buses db"
  from a have tot: "fs_total_buses st = int (length ?bs)"
    and act: "fs_active_buses st = int (length (filter (\<lambda>b. status b = ''active'') ?bs))"
    and off: "fs_offline_buses st = fs_total_buses st - fs_active_buses st"
    by (auto simp: get_fleet_status_def Let_def split: sum.splits)
  have cnt: "fs_offline_buses st = int (length (filter (\<lambda>b. status b \<noteq> ''active'') ?bs))"
    using off tot act length_filter_not [of "\<lambda>b. status b = ''active''" ?bs] by simp
  have "filter (\<lambda>b. status b = ''maintenance'') ?bs =
        filter (\<lambda>b. status b = ''maintenance'') (filter (\<lambda>b. status b \<noteq> ''active'') ?bs)"
    by (simp add: conj_commute cong: conj_cong) (rule filter_cong, auto)
  then have "length (filter (\<lambda>b. status b = ''maintenance'') ?bs) \<le>
             length (filter (\<lambda>b. status b \<noteq> ''active'') ?bs)"
    by (metis length_filter_le)
  with off cnt show ?thesis by simp
qed

theorem fleet_status_offline_counts_non_active_witness:
  "get_fleet_status mixed_fleet_db =
     Inr \<lparr> fs_total_buses = 3, fs_active_buses = 1, fs_offline_buses = 2,
           fs_total_capacity = 120, fs_current_occupancy = 45,
           fs_occupancy_rate = Finite (75 / 2), fs_buses = buses mixed_fleet_db,
           fs_routes = 1 \<rparr> \<and>
   int (length (filter (\<lambda>b. status b \<noteq> ''active'') (buses mixed_fleet_db))) = 2 \<and>
   int (length (filter (\<lambda>b. status b = ''maintenance'') (buses mixed_fleet_db))) \<le> 2"
proof -
  have st: "get_fleet_status mixed_fleet_db =
     Inr \<lparr> fs_total_buses = 3, fs_active_buses = 1, fs_offline_buses = 2,
           fs_total_capacity = 120, fs_current_occupancy = 45,
           fs_occupancy_rate = Finite (75 / 2), fs_buses = buses mixed_fleet_db,
           fs_routes = 1 \<rparr>"
    by (simp add: get_fleet_status_def mixed_fleet_db_def delhi_db_def bus_at_red_fort_def
          occupancy_rate_45_120)
  from fleet_status_offline_counts_non_active [OF st] st show ?thesis by simp
qed

text \<open>
  Claim C10. The fleet status never divides by zero: whatever the bus documents are, the
  handler does not raise a division error, and when the capacities sum to 0 (no bus at
  all, for one) it answers with \<open>occupancy_rate\<close> 0.
\<close>

theorem fleet_status_never_divides_by_zero:
  "get_fleet_status db \<noteq> Inl ZeroDivisionError \<and>
   (sum_list (map capacity (buses db)) = 0 \<longrightarrow>
      (\<exists>st. get_fleet_status db = Inr st \<and> fs_occupancy_rate st = Finite 0))"
proof
  show "get_fleet_status db \<noteq> Inl ZeroDivisionError"
    using occupancy_rate_not_zero_division
      [of "sum_list (map current_occupancy (buses db))" "sum_list (map capacity (buses db))"]
    by (auto simp: get_fleet_status_def Let_def split: sum.splits)
next
  show "sum_list (map capacity (buses db)) = 0 \<longrightarrow>
      (\<exists>st. get_fleet_status db = Inr st \<and> fs_occupancy_rate st = Finite 0)"
    by (simp add: get_fleet_status_def Let_def occupancy_rate_def)
qed

theorem fleet_status_never_divides_by_zero_witness:
  "sum_list (map capacity (buses empty_db)) = 0 \<and>
   get_fleet_status empty_db \<noteq> Inl ZeroDivisionError \<and>
   (\<exists>st. get_fleet_status empty_db = Inr st \<and> fs_occupancy_rate st = Finite 0)"
  using fleet_status_never_divides_by_zero [of empty_db] by (simp add: empty_db_def)

section \<open>Properties of the geo helpers\<close>

text \<open>
  The distance from a finite point to itself is 0 whenever the cosine of its latitude is
  returned, and a distance that is returned is never negative.
\<close>

lemma radians_zero: "radians (Finite 0) = Finite 0"
  by (simp add: radians_def round_double_zero)

lemma radians_not_NaN: "radians (Finite x) \<noteq> NaN"
  by (simp add: radians_def round_double_not_NaN)

lemma float_sub_self: "float_sub (Finite x) (Finite x) = Finite 0"
  by (simp add: float_sub_def round_double_zero)

lemma cos_of_radians:
  assumes "math_facts math" and "math_cos math (radians (Finite lat)) = Inr c"
  shows "\<exists>r s. c = Finite r \<and> float_mul c c = Finite s"
proof -
  from assms have "unit_float c"
    using radians_not_NaN [of lat] by (auto simp: math_facts_def)
  then obtain r where c: "c = Finite r" and r: "\<bar>r\<bar> \<le> 1"
    by (cases c) (auto simp: unit_float_def)
  have "\<bar>r\<bar> * \<bar>r\<bar> \<le> 1 * 1"
    using r by (intro mult_mono) simp_all
  then have "\<bar>r * r\<bar> \<le> 1" by (simp add: abs_mult)
  then obtain s where "round_double (r * r) = Finite s"
    using round_double_unit_finite by blast
  with c show ?thesis by simp
qed

lemma haversine_term_same_point:
  assumes "math_facts math" and "math_cos math (radians (Finite lat)) = Inr c"
  shows "haversine_term math (Finite lat) (Finite lng) (Finite lat) (Finite lng) = Inr (Finite 0)"
proof -
  from cos_of_radians [OF assms] obtain r s where c: "c = Finite r" "float_mul c c = Finite s"
    by blast
  from assms(1) have s0: "math_sin math (Finite 0) = Inr (Finite 0)"
    by (simp add: math_facts_def)
  show ?thesis
    using assms(2) c
    by (simp add: haversine_term_def Let_def float_sub_self radians_zero float_truediv_def
          round_double_zero and_then_def s0)
qed

lemma calculate_distance_same_point:
  assumes "math_facts math" and "math_cos math (radians (Finite lat)) = Inr c"
  shows "calculate_distance math (Finite lat) (Finite lng) (Finite lat) (Finite lng) = Inr (Finite 0)"
proof -
  from assms(1) have f: "math_sqrt math (Finite 0) = Inr (Finite 0)"
    "math_sqrt math (Finite 1) = Inr (Finite 1)"
    "math_atan2 math (Finite 0) (Finite 1) = Inr (Finite 0)"
    by (simp_all add: math_facts_def)
  show ?thesis
    by (simp add: calculate_distance_def haversine_term_same_point [OF assms] and_then_def f
          float_sub_def round_double_one round_double_zero)
qed

lemma calculate_distance_same_point_returned:
  assumes "math_facts math"
    and "calculate_distance math (Finite lat) (Finite lng) (Finite lat) (Finite lng) = Inr d"
  shows "d = Finite 0"
proof (cases "math_cos math (radians (Finite lat))")
  case (Inl e)
  from assms(1) have s0: "math_sin math (Finite 0) = Inr (Finite 0)"
    by (simp add: math_facts_def)
  have "haversine_term math (Finite lat) (Finite lng) (Finite lat) (Finite lng) = Inl e"
    using Inl
    by (simp add: haversine_term_def Let_def float_sub_self radians_zero float_truediv_def
          round_double_zero and_then_def s0)
  with assms(2) show ?thesis by (simp add: calculate_distance_def and_then_def)
next
  case (Inr c)
  from calculate_distance_same_point [OF assms(1) Inr, of lng] assms(2) show ?thesis by simp
qed

lemma calculate_distance_not_negative:
  assumes "math_facts math" and "calculate_distance math lat1 lng1 lat2 lng2 = Inr d"
  shows "\<not> float_negative d"
proof -
  from assms(2) obtain a sa sb t where
    sa: "math_sqrt math a = Inr sa" and
    sb: "math_sqrt math (float_sub (Finite 1) a) = Inr sb" and
    t: "math_atan2 math sa sb = Inr t" and
    d: "d = float_mul (Finite 6371) (float_mul (Finite 2) t)"
    by (auto simp: calculate_distance_def and_then_def split: sum.splits)
  from assms(1) sa sb have "\<not> float_negative sa" "\<not> float_negative sb"
    by (auto simp: math_facts_def)
  with assms(1) t have "\<not> float_negative t" by (auto simp: math_facts_def)
  then have n2: "\<not> float_negative (float_mul (Finite 2) t)"
    by (intro float_mul_pos_not_negative) simp_all
  show ?thesis unfolding d by (rule float_mul_pos_not_negative) (simp, rule n2)
qed

lemma whole_minutes_not_negative:
  assumes "whole_minutes d = Inr m" and "\<not> float_negative d"
  shows "\<exists>dist hours minutes.
           d = Finite dist \<and> 0 \<le> dist \<and> round_double (dist / 20) = Finite hours \<and>
           round_double (hours * 60) = Finite minutes \<and> 0 \<le> minutes \<and> m = \<lfloor>minutes\<rfloor>"
proof (cases d)
  case (Finite dist)
  with assms(2) have dist: "0 \<le> dist" by (simp add: float_negative_def)
  then have h: "\<not> float_negative (round_double (dist / 20))"
    by (intro round_double_nonneg) simp
  from assms(1) Finite have pm: "py_int (float_mul (round_double (dist / 20)) (Finite 60)) = Inr m"
    by (simp add: whole_minutes_def float_truediv_def and_then_def)
  show ?thesis
  proof (cases "round_double (dist / 20)")
    case (Finite hours)
    with h have hours: "0 \<le> hours" by (simp add: float_negative_def)
    then have p: "\<not> float_negative (round_double (hours * 60))"
      by (intro round_double_nonneg) simp
    from pm Finite have pm': "py_int (round_double (hours * 60)) = Inr m" by simp
    then obtain minutes where mi: "round_double (hours * 60) = Finite minutes"
      by (cases "round_double (hours * 60)") auto
    with p have m0: "0 \<le> minutes" by (simp add: float_negative_def)
    with pm' mi have "m = \<lfloor>minutes\<rfloor>" by (simp add: trunc_rat_def)
    with \<open>d = Finite dist\<close> dist Finite mi m0 show ?thesis by blast
  next
    case PInf
    with pm show ?thesis by simp
  next
    case NInf
    with pm show ?thesis by simp
  next
    case NaN
    with pm show ?thesis by simp
  qed
next
  case PInf
  with assms(1) show ?thesis
    by (simp add: whole_minutes_def float_truediv_def and_then_def)
next
  case NInf
  with assms(2) show ?thesis by (simp add: float_negative_def)
next
  case NaN
  with assms(1) show ?thesis
    by (simp add: whole_minutes_def float_truediv_def and_then_def)
qed

lemma lookup_float_member: "lookup_float samples x = Inr y \<Longrightarrow> (x, y) \<in> set samples"
  by (auto simp: lookup_float_def split: option.splits dest: map_of_SomeD)

lemma sampled_math_facts: "math_facts sampled_math"
proof -
  have c: "\<forall>p \<in> set cos_samples. unit_float (snd p)"
    by (simp add: cos_samples_def unit_float_def)
  have s: "\<forall>p \<in> set sqrt_samples. \<not> float_negative (snd p)"
    by (simp add: sqrt_samples_def float_negative_def)
  have a: "\<forall>p \<in> set atan2_samples. \<not> float_negative (snd p)"
    by (simp add: atan2_samples_def float_negative_def)
  have cos: "unit_float y" if "math_cos sampled_math x = Inr y" for x y
    using that c lookup_float_member [of cos_samples x y] by (auto simp: sampled_math_def)
  have sqrt: "\<not> float_negative y" if "math_sqrt sampled_math x = Inr y" for x y
    using that s lookup_float_member [of sqrt_samples x y]
    by (auto simp: sampled_math_def split: if_splits)
  have atan2: "\<not> float_negative t" if "math_atan2 sampled_math y x = Inr t" for x y t
    using that a lookup_float_member [of atan2_samples "(y, x)" t] by (auto simp: sampled_math_def)
  have fixed: "math_sin sampled_math (Finite 0) = Inr (Finite 0)"
    "math_sqrt sampled_math (Finite 0) = Inr (Finite 0)"
    "math_sqrt sampled_math (Finite 1) = Inr (Finite 1)"
    "math_atan2 sampled_math (Finite 0) (Finite 1) = Inr (Finite 0)"
    by (simp_all add: sampled_math_def lookup_float_def sin_samples_def sqrt_samples_def
          atan2_samples_def float_negative_def)
  show ?thesis
    unfolding math_facts_def using fixed cos sqrt atan2 by blast
qed

lemmas geo_defs =
  calculate_distance_def haversine_term_def radians_def deg_to_rad_def and_then_def Let_def
  float_sub_def float_truediv_def sampled_math_def lookup_float_def sin_samples_def
  cos_samples_def sqrt_samples_def atan2_samples_def float_negative_def

text \<open>
  Claim C7. The claim says that \<^verbatim>\<open>calculate_distance\<close> returns the same distance for a
  pair of points in either order. Between the points (2.5, 0) and (-2.5, 180), which
  are nearly antipodal, it returns no distance at all: the term \<^verbatim>\<open>a\<close> of the haversine
  formula rounds to 1.0000000000000002, above 1, so \<^verbatim>\<open>math.sqrt(1-a)\<close> is called on a
  negative number and raises \<^verbatim>\<open>ValueError\<close>, in both orders of the two points.
\<close>

theorem calculate_distance_raises_near_antipodes:
  "haversine_term sampled_math (Finite (5 / 2)) (Finite 0) (Finite (- (5 / 2))) (Finite 180) =
     Inr (Finite (4503599627370497 / 4503599627370496)) \<and>
   float_sub (Finite 1) (Finite (4503599627370497 / 4503599627370496)) =
     Finite (- (1 / 4503599627370496)) \<and>
   calculate_distance sampled_math (Finite (5 / 2)) (Finite 0) (Finite (- (5 / 2))) (Finite 180) =
     Inl ValueError \<and>
   calculate_distance sampled_math (Finite (- (5 / 2))) (Finite 180) (Finite (5 / 2)) (Finite 0) =
     Inl ValueError"
  by (simp add: geo_defs rounding_steps)

text \<open>
  The scenario of the estimated time of arrival: a bus about one kilometre from the stop.
  The distance is 0.9999999999999999, which gives 2 whole minutes.
\<close>

lemma calculate_distance_one_km:
  "calculate_distance sampled_math (Finite one_km_north) (Finite 0) (Finite 0) (Finite 0) =
     Inr (Finite (9007199254740991 / 9007199254740992))"
  by (simp add: geo_defs rounding_steps one_km_north_def)

lemma whole_minutes_one_km:
  "whole_minutes (Finite (9007199254740991 / 9007199254740992)) = Inr 2"
  by (simp add: whole_minutes_def float_truediv_def and_then_def rounding_steps trunc_rat_def
        floor_rat_numeral_div)

text \<open>
  Claim C8, as amended. \<^verbatim>\<open>interpolate_position\<close> returns, for each coordinate, the
  blend \<^verbatim>\<open>start + (end - start) * progress\<close>, every operation rounding to a double.
  For a finite start point and a difference \<^verbatim>\<open>end - start\<close> that does not overflow,
  progress 0 gives exactly the start point. Progress 1 gives exactly the end point when,
  in addition, the end point is finite and each difference \<^verbatim>\<open>end - start\<close> is computed
  without rounding error.
\<close>

theorem interpolate_endpoints:
  assumes "is_double a_lat" and "is_double a_lng"
    and "float_sub (Finite b_lat) (Finite a_lat) = Finite d_lat"
    and "float_sub (Finite b_lng) (Finite a_lng) = Finite d_lng"
  shows "interpolate_position start_lat start_lng end_lat end_lng progress =
           (float_add start_lat (float_mul (float_sub end_lat start_lat) progress),
            float_add start_lng (float_mul (float_sub end_lng start_lng) progress)) \<and>
         interpolate_position (Finite a_lat) (Finite a_lng) (Finite b_lat) (Finite b_lng) (Finite 0)
           = (Finite a_lat, Finite a_lng) \<and>
         (is_double b_lat \<and> is_double b_lng \<and> d_lat = b_lat - a_lat \<and> d_lng = b_lng - a_lng \<longrightarrow>
            interpolate_position (Finite a_lat) (Finite a_lng) (Finite b_lat) (Finite b_lng) (Finite 1)
              = (Finite b_lat, Finite b_lng))"
proof (intro conjI impI)
  show "interpolate_position start_lat start_lng end_lat end_lng progress =
           (float_add start_lat (float_mul (float_sub end_lat start_lat) progress),
            float_add start_lng (float_mul (float_sub end_lng start_lng) progress))"
    by (simp add: interpolate_position_def)
next
  show "interpolate_position (Finite a_lat) (Finite a_lng) (Finite b_lat) (Finite b_lng) (Finite 0)
           = (Finite a_lat, Finite a_lng)"
    using assms by (simp add: interpolate_position_def round_double_zero is_double_def)
next
  assume b: "is_double b_lat \<and> is_double b_lng \<and> d_lat = b_lat - a_lat \<and> d_lng = b_lng - a_lng"
  from assms(3) b have r1: "round_double (b_lat - a_lat) = Finite (b_lat - a_lat)"
    by (simp add: float_sub_def)
  from assms(4) b have r2: "round_double (b_lng - a_lng) = Finite (b_lng - a_lng)"
    by (simp add: float_sub_def)
  from b have r3: "round_double b_lat = Finite b_lat" and r4: "round_double b_lng = Finite b_lng"
    by (simp_all add: is_double_def)
  show "interpolate_position (Finite a_lat) (Finite a_lng) (Finite b_lat) (Finite b_lng) (Finite 1)
              = (Finite b_lat, Finite b_lng)"
    by (simp add: interpolate_position_def float_sub_def r1 r2 r3 r4)
qed

text \<open>
  The claim as stated fails at progress 1: from (1.0, 1.0) to (0.1, 0.1) the difference
  \<^verbatim>\<open>0.1 - 1.0\<close> is rounded, and the result is 0.09999999999999998, not 0.1. The
  fractions below are the doubles 0.1 and 0.09999999999999998.
\<close>

theorem interpolate_end_counterexample:
  "interpolate_position (Finite 1) (Finite 1) (Finite (3602879701896397 / 36028797018963968)) (Finite (3602879701896397 / 36028797018963968)) (Finite 1) =
     (Finite (900719925474099 / 9007199254740992), Finite (900719925474099 / 9007199254740992)) \<and>
   is_double 1 \<and> is_double (3602879701896397 / 36028797018963968) \<and>
   \<not> float_eq (Finite (900719925474099 / 9007199254740992)) (Finite (3602879701896397 / 36028797018963968))"
  by (simp add: interpolate_position_def float_sub_def is_double_def round_double_one
        round_double_tenth round_double_tenth_minus_one round_double_tenth_diff
        round_double_tenth_back)

text \<open>
  The amended claim from Red Fort to India Gate: the decimal coordinates of the sample data
  become the four doubles, both differences are computed exactly, and progress 0 and 1
  give the two stops.
\<close>

theorem interpolate_endpoints_witness:
  "round_double 28.6562 = Finite red_fort_lat_double \<and>
   round_double 77.2410 = Finite red_fort_lng_double \<and>
   round_double 28.6129 = Finite india_gate_lat_double \<and>
   round_double 77.2295 = Finite india_gate_lng_double \<and>
   is_double red_fort_lat_double \<and> is_double red_fort_lng_double \<and>
   is_double india_gate_lat_double \<and> is_double india_gate_lng_double \<and>
   float_sub (Finite india_gate_lat_double) (Finite red_fort_lat_double) =
     Finite (india_gate_lat_double - red_fort_lat_double) \<and>
   float_sub (Finite india_gate_lng_double) (Finite red_fort_lng_double) =
     Finite (india_gate_lng_double - red_fort_lng_double) \<and>
   interpolate_position (Finite red_fort_lat_double) (Finite red_fort_lng_double)
     (Finite india_gate_lat_double) (Finite india_gate_lng_double) (Finite 0)
     = (Finite red_fort_lat_double, Finite red_fort_lng_double) \<and>
   interpolate_position (Finite red_fort_lat_double) (Finite red_fort_lng_double)
     (Finite india_gate_lat_double) (Finite india_gate_lng_double) (Finite 1)
     = (Finite india_gate_lat_double, Finite india_gate_lng_double)"
proof -
  have lit: "round_double 28.6562 = Finite red_fort_lat_double"
    "round_double 77.2410 = Finite red_fort_lng_double"
    "round_double 28.6129 = Finite india_gate_lat_double"
    "round_double 77.2295 = Finite india_gate_lng_double"
    using round_double_red_fort_lat_double_literal round_double_red_fort_lng_double_literal
      round_double_india_gate_lat_double_literal round_double_india_gate_lng_double_literal
    by simp_all
  have a: "is_double red_fort_lat_double" "is_double red_fort_lng_double"
    "is_double india_gate_lat_double" "is_double india_gate_lng_double"
    by (simp_all add: is_double_def red_fort_lat_double_def red_fort_lng_double_def
          india_gate_lat_double_def india_gate_lng_double_def
          round_double_red_fort_lat_double round_double_red_fort_lng_double
          round_double_india_gate_lat_double round_double_india_gate_lng_double)
  have d1: "float_sub (Finite india_gate_lat_double) (Finite red_fort_lat_double) =
     Finite (india_gate_lat_double - red_fort_lat_double)"
    by (simp add: float_sub_def red_fort_lat_double_def india_gate_lat_double_def
          round_double_delta_lat)
  have d2: "float_sub (Finite india_gate_lng_double) (Finite red_fort_lng_double) =
     Finite (india_gate_lng_double - red_fort_lng_double)"
    by (simp add: float_sub_def red_fort_lng_double_def india_gate_lng_double_def
          round_double_delta_lng)
  note ends = interpolate_endpoints [OF a(1) a(2) d1 d2, where start_lat = "Finite 0"
      and start_lng = "Finite 0" and end_lat = "Finite 0" and end_lng = "Finite 0"
      and progress = "Finite 0"]
  from ends have i0:
    "interpolate_position (Finite red_fort_lat_double) (Finite red_fort_lng_double)
       (Finite india_gate_lat_double) (Finite india_gate_lng_double) (Finite 0)
       = (Finite red_fort_lat_double, Finite red_fort_lng_double)"
    by blast
  from ends a(3) a(4) have i1:
    "interpolate_position (Finite red_fort_lat_double) (Finite red_fort_lng_double)
       (Finite india_gate_lat_double) (Finite india_gate_lng_double) (Finite 1)
       = (Finite india_gate_lat_double, Finite india_gate_lng_double)"
    by blast
  from lit a d1 d2 i0 i1 show ?thesis by (intro conjI)
qed

section \<open>Properties of the stop lookup\<close>

text \<open>
  \<open>contains\<close> is the substring test: the name is some prefix, the query, some suffix.
\<close>

lemma starts_with_iff: "starts_with ds q \<longleftrightarrow> (\<exists>suf. ds = q @ suf)"
  by (induction ds q rule: starts_with.induct) auto

lemma contains_iff: "contains ds q \<longleftrightarrow> (\<exists>pre suf. ds = pre @ q @ suf)"
proof (induction ds)
  case Nil
  then show ?case by (auto simp: starts_with_iff)
next
  case (Cons d ds)
  show ?case
  proof
    assume "contains (d # ds) q"
    then consider "starts_with (d # ds) q" | "contains ds q" by auto
    then show "\<exists>pre suf. d # ds = pre @ q @ suf"
    proof cases
      case 1
      then obtain suf where "d # ds = q @ suf" by (auto simp: starts_with_iff)
      then have "d # ds = [] @ q @ suf" by simp
      then show ?thesis by blast
    next
      case 2
      with Cons.IH obtain pre suf where "ds = pre @ q @ suf" by blast
      then have "d # ds = (d # pre) @ q @ suf" by simp
      then show ?thesis by blast
    qed
  next
    assume "\<exists>pre suf. d # ds = pre @ q @ suf"
    then obtain pre suf where e: "d # ds = pre @ q @ suf" by blast
    show "contains (d # ds) q"
    proof (cases pre)
      case Nil
      with e have "starts_with (d # ds) q" by (auto simp: starts_with_iff)
      then show ?thesis by simp
    next
      case (Cons p pre')
      with e have "ds = pre' @ q @ suf" by simp
      with Cons.IH have "contains ds q" by blast
      then show ?thesis by simp
    qed
  qed
qed

lemma parse_pattern_literal: "literal_query q \<Longrightarrow> parse_pattern q = Some (map Lit q)"
  by (induction q) (auto simp: literal_query_def)

lemma match_here_literal:
  "match_here (map Lit q) ds = starts_with (map fold_case ds) (map fold_case q)"
proof (induction q arbitrary: ds)
  case Nil
  then show ?case by simp
next
  case (Cons c q)
  then show ?case by (cases ds) auto
qed

lemma search_literal:
  "search (map Lit q) ds = contains (map fold_case ds) (map fold_case q)"
  by (induction ds) (simp_all add: match_here_literal)

text \<open>
  Claim C4, as amended. For every query string without regular-expression
  metacharacters (ASCII text), the lookup returns the first stop whose name contains the
  query as a substring, ignoring case, and no stop when no name contains it.
\<close>

theorem find_stop_literal_query:
  assumes "literal_query q" and "\<forall>s \<in> set stops. list_all printable (s_name s)"
  shows "find_one_by_name literal_dot_engine stops q = Inr (find_stop_by_name_spec stops q)"
  using assms(1)
  by (simp add: find_one_by_name_def literal_dot_engine_def parse_pattern_literal
        find_stop_by_name_spec_def contains_ci_def search_literal)

text \<open>
  The claim as stated fails for a query with a metacharacter: the query \<^verbatim>\<open>R.d\<close> finds
  Red Fort, whose name does not contain \<^verbatim>\<open>R.d\<close>.
\<close>

theorem find_stop_regex_counterexample:
  "find_one_by_name literal_dot_engine [red_fort, india_gate, connaught_place, karol_bagh] ''R.d''
     = Inr (Some red_fort) \<and>
   find_stop_by_name_spec [red_fort, india_gate, connaught_place, karol_bagh] ''R.d'' = None \<and>
   \<not> contains_ci (s_name red_fort) ''R.d''"
  by (simp add: sample_defs engine_defs find_stop_by_name_spec_def contains_ci_def)

text \<open>
  The amended claim at the queries \<^verbatim>\<open>red fort\<close>, \<^verbatim>\<open>Fort\<close> and \<^verbatim>\<open>NoSuchStop\<close>.
\<close>

theorem find_stop_literal_query_witness:
  "literal_query ''red fort'' \<and> literal_query ''Fort'' \<and> literal_query ''NoSuchStop'' \<and>
   list_all (\<lambda>s. list_all printable (s_name s)) [red_fort, india_gate, connaught_place, karol_bagh] \<and>
   find_one_by_name literal_dot_engine [red_fort, india_gate, connaught_place, karol_bagh]
     ''red fort'' = Inr (Some red_fort) \<and>
   find_one_by_name literal_dot_engine [red_fort, india_gate, connaught_place, karol_bagh]
     ''Fort'' = Inr (Some red_fort) \<and>
   find_one_by_name literal_dot_engine [red_fort, india_gate, connaught_place, karol_bagh]
     ''NoSuchStop'' = Inr None"
proof -
  let ?stops = "[red_fort, india_gate, connaught_place, karol_bagh]"
  have l: "literal_query ''red fort''" "literal_query ''Fort''" "literal_query ''NoSuchStop''"
    by (simp_all add: literal_query_def printable_def other_metachars_def)
  have p: "\<forall>s \<in> set ?stops. list_all printable (s_name s)"
    by (simp add: sample_defs printable_def)
  have s: "find_stop_by_name_spec ?stops ''red fort'' = Some red_fort"
    "find_stop_by_name_spec ?stops ''Fort'' = Some red_fort"
    "find_stop_by_name_spec ?stops ''NoSuchStop'' = None"
    by (simp_all add: find_stop_by_name_spec_def contains_ci_def sample_defs fold_case_def)
  from find_stop_literal_query [OF l(1) p] find_stop_literal_query [OF l(2) p]
    find_stop_literal_query [OF l(3) p] l p s
  show ?thesis by simp
qed

section \<open>Properties of the bus finder\<close>

lemma find_buses_InrD:
  assumes "find_buses math engine db env q = Inr rs"
  shows "\<exists>fs ts raw.
           find_one_by_name engine (bus_stops db) (from_stop q) = Inr (Some fs) \<and>
           find_one_by_name engine (bus_stops db) (to_stop q) = Inr (Some ts) \<and>
           collect_results math env fs 0 (route_bus_pairs db fs ts) = Inr raw \<and>
           rs = sort_key eta_minutes raw"
  using assms
  by (auto simp: find_buses_def find_buses_try_def split: sum.splits option.splits)

lemma find_buses_cases:
  "find_buses math engine db env q = Inl (HTTPException 500 ''Error finding buses'') \<or>
   (\<exists>rs. find_buses math engine db env q = Inr rs)"
  by (simp add: find_buses_def split: sum.splits)

lemma find_buses_try_not_found:
  assumes "find_one_by_name engine (bus_stops db) (from_stop q) = Inr None \<or>
           find_one_by_name engine (bus_stops db) (to_stop q) = Inr None"
    and "find_one_by_name engine (bus_stops db) (from_stop q) = Inr f"
    and "find_one_by_name engine (bus_stops db) (to_stop q) = Inr t"
  shows "find_buses_try math engine db env q = Inl (HTTPException 404 ''One or both stops not found'')"
  using assms by (auto simp: find_buses_try_def split: option.splits)

lemma collect_results_member:
  "collect_results math env fs k ps = Inr xs \<Longrightarrow> x \<in> set xs \<Longrightarrow>
     \<exists>rt b j. (rt, b) \<in> set ps \<and> bus_response math env fs j rt b = Inr x"
proof (induction ps arbitrary: k xs)
  case Nil
  then show ?case by simp
next
  case (Cons p ps)
  obtain rt b where p: "p = (rt, b)" by (cases p)
  from Cons.prems(1) p obtain y ys where
    y: "bus_response math env fs k rt b = Inr y" and
    ys: "collect_results math env fs (Suc k) ps = Inr ys" and
    xs: "xs = y # ys"
    by (auto split: sum.splits)
  show ?case
  proof (cases "x = y")
    case True
    with y p show ?thesis by auto
  next
    case False
    with Cons.prems(2) xs have "x \<in> set ys" by simp
    from Cons.IH [OF ys this] show ?thesis by auto
  qed
qed

lemma mongo_all_pair: "mongo_all [a, b] arr \<longleftrightarrow> a \<in> set arr \<and> b \<in> set arr"
  by (simp add: mongo_all_def)

lemma route_bus_pairs_member:
  "(rt, b) \<in> set (route_bus_pairs db fs ts) \<longleftrightarrow>
     rt \<in> set (routes db) \<and> s_id fs \<in> set (r_stops rt) \<and> s_id ts \<in> set (r_stops rt) \<and>
     b \<in> set (buses db) \<and> route_id b = r_id rt \<and> status b = ''active''"
  by (auto simp: route_bus_pairs_def routes_containing_both_def active_buses_on_def
        mongo_all_pair)

lemma find_buses_member:
  assumes "find_buses math engine db env q = Inr rs" and "x \<in> set rs"
  shows "\<exists>fs ts rt b j.
           find_one_by_name engine (bus_stops db) (from_stop q) = Inr (Some fs) \<and>
           find_one_by_name engine (bus_stops db) (to_stop q) = Inr (Some ts) \<and>
           (rt, b) \<in> set (route_bus_pairs db fs ts) \<and>
           bus_response math env fs j rt b = Inr x"
proof -
  from find_buses_InrD [OF assms(1)] obtain fs ts raw where
    f: "find_one_by_name engine (bus_stops db) (from_stop q) = Inr (Some fs)" and
    t: "find_one_by_name engine (bus_stops db) (to_stop q) = Inr (Some ts)" and
    c: "collect_results math env fs 0 (route_bus_pairs db fs ts) = Inr raw" and
    r: "rs = sort_key eta_minutes raw"
    by blast
  from assms(2) r have "x \<in> set raw" by simp
  from collect_results_member [OF c this] f t show ?thesis by blast
qed

lemma randint_2_8: "2 \<le> randint raw 2 8 \<and> randint raw 2 8 \<le> 8"
proof -
  have "raw mod 7 < 7" by simp
  then show ?thesis by (simp add: randint_def)
qed

lemma bus_response_fields:
  assumes "bus_response math env fs k rt b = Inr x"
  shows "\<exists>d m. calculate_distance math (current_lat b) (current_lng b) (s_lat fs) (s_lng fs) = Inr d \<and>
             whole_minutes d = Inr m \<and>
             eta_minutes x = m + randint (random_raw env k) 2 8 \<and>
             occupancy_pct (current_occupancy b) (capacity b) = Inr (occupancy_percentage x) \<and>
             available_seats x = capacity b - current_occupancy b \<and>
             res_bus_number x = bus_number b \<and> route_name x = r_name rt"
  using assms by (auto simp: bus_response_def Let_def split: sum.splits)

lemma occupancy_pct_InrD:
  assumes "occupancy_pct occ cap = Inr p"
  shows "cap \<noteq> 0 \<and>
         (\<exists>ratio prod. round_double (of_int occ / of_int cap) = Finite ratio \<and>
                        round_double (ratio * 100) = Finite prod \<and> p = trunc_rat prod)"
proof -
  from assms have c: "cap \<noteq> 0"
    by (auto simp: occupancy_pct_def int_truediv_def split: if_splits)
  with assms obtain ratio where
    r: "round_double (of_int occ / of_int cap) = Finite ratio" and
    p: "py_int (float_mul (Finite ratio) (Finite 100)) = Inr p"
    by (auto simp: occupancy_pct_def int_truediv_def split: pyfloat.splits sum.splits)
  from p obtain prod where "round_double (ratio * 100) = Finite prod" and "p = trunc_rat prod"
    by (cases "round_double (ratio * 100)") auto
  with c r show ?thesis by blast
qed

subsection \<open>The scenarios, evaluated\<close>

lemma whole_minutes_zero: "whole_minutes (Finite 0) = Inr 0"
  by (simp add: whole_minutes_def float_truediv_def and_then_def round_double_zero trunc_rat_def)

lemma cos_at_red_fort:
  "math_cos sampled_math (radians (Finite red_fort_lat_double)) =
     Inr (Finite (3951967292985077 / 4503599627370496))"
  by (simp add: radians_def deg_to_rad_def red_fort_lat_double_def rounding_steps
        sampled_math_def lookup_float_def cos_samples_def)

lemma distance_at_red_fort:
  "calculate_distance sampled_math (Finite red_fort_lat_double) (Finite red_fort_lng_double)
     (Finite red_fort_lat_double) (Finite red_fort_lng_double) = Inr (Finite 0)"
  using calculate_distance_same_point [OF sampled_math_facts cos_at_red_fort] .

lemma cos_at_zero: "math_cos sampled_math (radians (Finite 0)) = Inr (Finite 1)"
  by (simp add: radians_zero sampled_math_def lookup_float_def cos_samples_def)

lemma distance_at_equator_west:
  "calculate_distance sampled_math (Finite 0) (Finite 0) (Finite 0) (Finite 0) = Inr (Finite 0)"
  using calculate_distance_same_point [OF sampled_math_facts cos_at_zero] .

lemma find_equator_west:
  "find_one_by_name literal_dot_engine (bus_stops equator_db) (from_stop west_to_east)
     = Inr (Some equator_west)"
  by (simp add: sample_defs engine_defs)

lemma find_equator_east:
  "find_one_by_name literal_dot_engine (bus_stops equator_db) (to_stop west_to_east)
     = Inr (Some equator_east)"
  by (simp add: sample_defs engine_defs)

lemma scenario_equator:
  "find_buses sampled_math literal_dot_engine equator_db (two_draw_env 5 1) west_to_east =
   Inr [\<lparr> res_bus_number = ''EQ-02'', route_name = ''Equator Line'', eta_minutes = 3,
          occupancy_percentage = 25, available_seats = 30, next_arrival = ''10:03'' \<rparr>,
        \<lparr> res_bus_number = ''EQ-01'', route_name = ''Equator Line'', eta_minutes = 9,
          occupancy_percentage = 25, available_seats = 30, next_arrival = ''10:09'' \<rparr>]"
  by (simp add: find_buses_def find_buses_try_def find_equator_west find_equator_east)
     (simp add: sample_defs loop_defs calculate_distance_one_km whole_minutes_one_km
        distance_at_equator_west whole_minutes_zero occupancy_pct_10_40)

lemma find_red_fort:
  "find_one_by_name literal_dot_engine (bus_stops (delhi_db bs)) (from_stop red_fort_to_india_gate)
     = Inr (Some red_fort)"
  by (simp add: sample_defs engine_defs)

lemma find_india_gate:
  "find_one_by_name literal_dot_engine (bus_stops (delhi_db bs)) (to_stop red_fort_to_india_gate)
     = Inr (Some india_gate)"
  by (simp add: sample_defs engine_defs)

lemma find_no_such_stop:
  "find_one_by_name literal_dot_engine (bus_stops (delhi_db bs)) (from_stop unknown_stops_query)
     = Inr None"
  by (simp add: sample_defs engine_defs)

lemma find_also_missing:
  "find_one_by_name literal_dot_engine (bus_stops (delhi_db bs)) (to_stop unknown_stops_query)
     = Inr None"
  by (simp add: sample_defs engine_defs)

lemma scenario_one_bus:
  "find_buses sampled_math literal_dot_engine (delhi_db [bus_at_red_fort ''bus-1'' ''DL-01'' 40 10 ''active''])
     (const_env 3) red_fort_to_india_gate =
   Inr [\<lparr> res_bus_number = ''DL-01'', route_name = ''Red Line'', eta_minutes = 5,
          occupancy_percentage = 25, available_seats = 30, next_arrival = ''10:05'' \<rparr>]"
  by (simp add: find_buses_def find_buses_try_def find_red_fort find_india_gate)
     (simp add: sample_defs loop_defs distance_at_red_fort whole_minutes_zero occupancy_pct_10_40)

lemma scenario_two_buses:
  "find_buses sampled_math literal_dot_engine
     (delhi_db [bus_at_red_fort ''bus-1'' ''DL-01'' 40 39 ''active'',
                bus_at_red_fort ''bus-2'' ''DL-02'' 40 5 ''active''])
     (two_draw_env 5 1) red_fort_to_india_gate =
   Inr [\<lparr> res_bus_number = ''DL-02'', route_name = ''Red Line'', eta_minutes = 3,
          occupancy_percentage = 12, available_seats = 35, next_arrival = ''10:03'' \<rparr>,
        \<lparr> res_bus_number = ''DL-01'', route_name = ''Red Line'', eta_minutes = 7,
          occupancy_percentage = 97, available_seats = 1, next_arrival = ''10:07'' \<rparr>]"
  by (simp add: find_buses_def find_buses_try_def find_red_fort find_india_gate)
     (simp add: sample_defs loop_defs distance_at_red_fort whole_minutes_zero occupancy_pct_39_40
        occupancy_pct_5_40)

lemma scenario_tie_12:
  "find_buses sampled_math literal_dot_engine
     (delhi_db [bus_at_red_fort ''bus-1'' ''DL-01'' 40 39 ''active'',
                bus_at_red_fort ''bus-2'' ''DL-02'' 40 5 ''active''])
     (const_env 3) red_fort_to_india_gate =
   Inr [\<lparr> res_bus_number = ''DL-01'', route_name = ''Red Line'', eta_minutes = 5,
          occupancy_percentage = 97, available_seats = 1, next_arrival = ''10:05'' \<rparr>,
        \<lparr> res_bus_number = ''DL-02'', route_name = ''Red Line'', eta_minutes = 5,
          occupancy_percentage = 12, available_seats = 35, next_arrival = ''10:05'' \<rparr>]"
  by (simp add: find_buses_def find_buses_try_def find_red_fort find_india_gate)
     (simp add: sample_defs loop_defs distance_at_red_fort whole_minutes_zero occupancy_pct_39_40
        occupancy_pct_5_40)

lemma scenario_tie_21:
  "find_buses sampled_math literal_dot_engine
     (delhi_db [bus_at_red_fort ''bus-2'' ''DL-02'' 40 5 ''active'',
                bus_at_red_fort ''bus-1'' ''DL-01'' 40 39 ''active''])
     (const_env 3) red_fort_to_india_gate =
   Inr [\<lparr> res_bus_number = ''DL-02'', route_name = ''Red Line'', eta_minutes = 5,
          occupancy_percentage = 12, available_seats = 35, next_arrival = ''10:05'' \<rparr>,
        \<lparr> res_bus_number = ''DL-01'', route_name = ''Red Line'', eta_minutes = 5,
          occupancy_percentage = 97, available_seats = 1, next_arrival = ''10:05'' \<rparr>]"
  by (simp add: find_buses_def find_buses_try_def find_red_fort find_india_gate)
     (simp add: sample_defs loop_defs distance_at_red_fort whole_minutes_zero occupancy_pct_39_40
        occupancy_pct_5_40)

subsection \<open>Unknown stops\<close>

text \<open>
  Claim C1. With two stop names that no stop has, the body of the handler raises
  \<^verbatim>\<open>HTTPException(404, "One or both stops not found")\<close>, but the handler's own
  \<^verbatim>\<open>except Exception\<close> catches it and answers 500 \<^verbatim>\<open>"Error finding buses"\<close>; the
  handler never answers 404, whatever the engine, the database and the query.
\<close>

theorem find_buses_unknown_stops_answer_500:
  "find_buses_try math literal_dot_engine (delhi_db bs) env unknown_stops_query =
     Inl (HTTPException 404 ''One or both stops not found'') \<and>
   find_buses math literal_dot_engine (delhi_db bs) env unknown_stops_query =
     Inl (HTTPException 500 ''Error finding buses'') \<and>
   find_buses math engine db env q \<noteq> Inl (HTTPException 404 detail)"
proof -
  have t: "find_buses_try math literal_dot_engine (delhi_db bs) env unknown_stops_query =
     Inl (HTTPException 404 ''One or both stops not found'')"
    by (simp add: find_buses_try_def find_no_such_stop find_also_missing)
  then have "find_buses math literal_dot_engine (delhi_db bs) env unknown_stops_query =
     Inl (HTTPException 500 ''Error finding buses'')"
    by (simp add: find_buses_def)
  moreover have "find_buses math engine db env q \<noteq> Inl (HTTPException 404 detail)"
    using find_buses_cases [of math engine db env q] by auto
  ultimately show ?thesis using t by blast
qed

subsection \<open>Route matching\<close>

text \<open>
  Claim C6. The route-matching step returns exactly the routes whose stop sequence
  holds both stop identities, in the order of the collection. Neither the order of the
  two stops in the query nor their order or adjacency in the sequence matters: swapping
  the two stops, or reversing every sequence, selects the same routes, and the Red Line
  is found for its last and first stops.
\<close>

theorem routes_containing_both_exact:
  "routes_containing_both rs a b =
     filter (\<lambda>r. a \<in> set (r_stops r) \<and> b \<in> set (r_stops r)) rs \<and>
   set (routes_containing_both rs a b) =
     {r \<in> set rs. a \<in> set (r_stops r) \<and> b \<in> set (r_stops r)} \<and>
   routes_containing_both rs b a = routes_containing_both rs a b \<and>
   routes_containing_both (map (\<lambda>r. r\<lparr>r_stops := rev (r_stops r)\<rparr>) rs) a b =
     map (\<lambda>r. r\<lparr>r_stops := rev (r_stops r)\<rparr>) (routes_containing_both rs a b) \<and>
   routes_containing_both [red_line] (s_id karol_bagh) (s_id red_fort) = [red_line]"
proof -
  have 1: "routes_containing_both rs a b =
     filter (\<lambda>r. a \<in> set (r_stops r) \<and> b \<in> set (r_stops r)) rs" for rs a b
    by (simp add: routes_containing_both_def mongo_all_pair)
  have 2: "set (routes_containing_both rs a b) =
     {r \<in> set rs. a \<in> set (r_stops r) \<and> b \<in> set (r_stops r)}"
    by (simp add: 1)
  have 3: "routes_containing_both rs b a = routes_containing_both rs a b"
    by (simp add: 1 conj_commute)
  have 4: "routes_containing_both (map (\<lambda>r. r\<lparr>r_stops := rev (r_stops r)\<rparr>) rs) a b =
     map (\<lambda>r. r\<lparr>r_stops := rev (r_stops r)\<rparr>) (routes_containing_both rs a b)"
    by (simp add: 1 filter_map comp_def)
  have 5: "routes_containing_both [red_line] (s_id karol_bagh) (s_id red_fort) = [red_line]"
    by (simp add: 1 red_line_def karol_bagh_def red_fort_def)
  from 1 2 3 4 5 show ?thesis by blast
qed

subsection \<open>Order of the results\<close>

text \<open>
  Claim C3, as amended. The returned sequence is sorted non-decreasing by
  \<open>eta_minutes\<close>, and results with equal \<open>eta_minutes\<close> keep the order in which the
  loops produced them (matching routes in collection order, the active buses of each in
  collection order): the sort is stable, and nothing compares bus identities.
\<close>

theorem find_buses_sorted_stable:
  assumes "find_buses math engine db env q = Inr rs"
  shows "sorted (map eta_minutes rs) \<and>
         (\<exists>fs ts raw.
            find_one_by_name engine (bus_stops db) (from_stop q) = Inr (Some fs) \<and>
            find_one_by_name engine (bus_stops db) (to_stop q) = Inr (Some ts) \<and>
            collect_results math env fs 0 (route_bus_pairs db fs ts) = Inr raw \<and>
            (\<forall>k. filter (\<lambda>r. eta_minutes r = k) rs = filter (\<lambda>r. eta_minutes r = k) raw))"
proof -
  from find_buses_InrD [OF assms] obtain fs ts raw where
    f: "find_one_by_name engine (bus_stops db) (from_stop q) = Inr (Some fs)" and
    t: "find_one_by_name engine (bus_stops db) (to_stop q) = Inr (Some ts)" and
    c: "collect_results math env fs 0 (route_bus_pairs db fs ts) = Inr raw" and
    r: "rs = sort_key eta_minutes raw"
    by blast
  have "sorted (map eta_minutes rs)" by (simp add: r)
  moreover have "filter (\<lambda>r. eta_minutes r = k) rs = filter (\<lambda>r. eta_minutes r = k) raw" for k
    by (simp add: r sort_key_stable)
  ultimately show ?thesis using f t c by blast
qed

text \<open>
  The claim as stated fails: two buses with equal \<open>eta_minutes\<close> come back in the
  order of the bus collection, whichever of them is inserted first.
\<close>

theorem find_buses_tie_order_counterexample:
  "find_buses sampled_math literal_dot_engine
     (delhi_db [bus_at_red_fort ''bus-1'' ''DL-01'' 40 39 ''active'',
                bus_at_red_fort ''bus-2'' ''DL-02'' 40 5 ''active''])
     (const_env 3) red_fort_to_india_gate =
   Inr [\<lparr> res_bus_number = ''DL-01'', route_name = ''Red Line'', eta_minutes = 5,
          occupancy_percentage = 97, available_seats = 1, next_arrival = ''10:05'' \<rparr>,
        \<lparr> res_bus_number = ''DL-02'', route_name = ''Red Line'', eta_minutes = 5,
          occupancy_percentage = 12, available_seats = 35, next_arrival = ''10:05'' \<rparr>] \<and>
   find_buses sampled_math literal_dot_engine
     (delhi_db [bus_at_red_fort ''bus-2'' ''DL-02'' 40 5 ''active'',
                bus_at_red_fort ''bus-1'' ''DL-01'' 40 39 ''active''])
     (const_env 3) red_fort_to_india_gate =
   Inr [\<lparr> res_bus_number = ''DL-02'', route_name = ''Red Line'', eta_minutes = 5,
          occupancy_percentage = 12, available_seats = 35, next_arrival = ''10:05'' \<rparr>,
        \<lparr> res_bus_number = ''DL-01'', route_name = ''Red Line'', eta_minutes = 5,
          occupancy_percentage = 97, available_seats = 1, next_arrival = ''10:05'' \<rparr>]"
  using scenario_tie_12 scenario_tie_21 by simp

text \<open>
  The amended claim where the second bus of the collection arrives first.
\<close>

theorem find_buses_sorted_stable_witness:
  "find_buses sampled_math literal_dot_engine
     (delhi_db [bus_at_red_fort ''bus-1'' ''DL-01'' 40 39 ''active'',
                bus_at_red_fort ''bus-2'' ''DL-02'' 40 5 ''active''])
     (two_draw_env 5 1) red_fort_to_india_gate =
   Inr [\<lparr> res_bus_number = ''DL-02'', route_name = ''Red Line'', eta_minutes = 3,
          occupancy_percentage = 12, available_seats = 35, next_arrival = ''10:03'' \<rparr>,
        \<lparr> res_bus_number = ''DL-01'', route_name = ''Red Line'', eta_minutes = 7,
          occupancy_percentage = 97, available_seats = 1, next_arrival = ''10:07'' \<rparr>] \<and>
   sorted [3, 7 :: int] \<and>
   collect_results sampled_math (two_draw_env 5 1) red_fort 0
     (route_bus_pairs
        (delhi_db [bus_at_red_fort ''bus-1'' ''DL-01'' 40 39 ''active'',
                   bus_at_red_fort ''bus-2'' ''DL-02'' 40 5 ''active''])
        red_fort india_gate) =
   Inr [\<lparr> res_bus_number = ''DL-01'', route_name = ''Red Line'', eta_minutes = 7,
          occupancy_percentage = 97, available_seats = 1, next_arrival = ''10:07'' \<rparr>,
        \<lparr> res_bus_number = ''DL-02'', route_name = ''Red Line'', eta_minutes = 3,
          occupancy_percentage = 12, available_seats = 35, next_arrival = ''10:03'' \<rparr>]"
proof -
  have c: "collect_results sampled_math (two_draw_env 5 1) red_fort 0
     (route_bus_pairs
        (delhi_db [bus_at_red_fort ''bus-1'' ''DL-01'' 40 39 ''active'',
                   bus_at_red_fort ''bus-2'' ''DL-02'' 40 5 ''active''])
        red_fort india_gate) =
   Inr [\<lparr> res_bus_number = ''DL-01'', route_name = ''Red Line'', eta_minutes = 7,
          occupancy_percentage = 97, available_seats = 1, next_arrival = ''10:07'' \<rparr>,
        \<lparr> res_bus_number = ''DL-02'', route_name = ''Red Line'', eta_minutes = 3,
          occupancy_percentage = 12, available_seats = 35, next_arrival = ''10:03'' \<rparr>]"
    by (simp add: sample_defs loop_defs distance_at_red_fort whole_minutes_zero occupancy_pct_39_40
          occupancy_pct_5_40)
  from find_buses_sorted_stable [OF scenario_two_buses] scenario_two_buses c
  show ?thesis by simp
qed

subsection \<open>Occupancy\<close>

text \<open>
  Claim C2, as amended. Every result belongs to an active bus of the database;
  \<open>available_seats\<close> is its capacity minus its occupancy, and \<open>occupancy_percentage\<close> is
  \<^verbatim>\<open>(occupancy / capacity) * 100\<close> computed in double precision and truncated toward
  zero, not rounded (97 and 12 for occupancies 39/40 and 5/40).
\<close>

theorem find_buses_occupancy_truncated:
  assumes "find_buses math engine db env q = Inr rs" and "r \<in> set rs"
  shows "\<exists>b ratio prod.
           b \<in> set (buses db) \<and> status b = ''active'' \<and> res_bus_number r = bus_number b \<and>
           available_seats r = capacity b - current_occupancy b \<and>
           capacity b \<noteq> 0 \<and>
           round_double (of_int (current_occupancy b) / of_int (capacity b)) = Finite ratio \<and>
           round_double (ratio * 100) = Finite prod \<and>
           occupancy_percentage r = trunc_rat prod"
proof -
  from find_buses_member [OF assms] obtain fs ts rt b j where
    m: "(rt, b) \<in> set (route_bus_pairs db fs ts)" and
    x: "bus_response math env fs j rt b = Inr r"
    by blast
  from m have b: "b \<in> set (buses db)" "status b = ''active''"
    by (simp_all add: route_bus_pairs_member)
  from bus_response_fields [OF x] have
    o: "occupancy_pct (current_occupancy b) (capacity b) = Inr (occupancy_percentage r)" and
    a: "available_seats r = capacity b - current_occupancy b" and
    n: "res_bus_number r = bus_number b"
    by auto
  from occupancy_pct_InrD [OF o] b a n show ?thesis by blast
qed

text \<open>
  The claim as stated fails on its own example: the two buses get 97 and 12, where
  rounding gives 98 and 13.
\<close>

theorem find_buses_occupancy_rounded_counterexample:
  "find_buses sampled_math literal_dot_engine
     (delhi_db [bus_at_red_fort ''bus-1'' ''DL-01'' 40 39 ''active'',
                bus_at_red_fort ''bus-2'' ''DL-02'' 40 5 ''active''])
     (const_env 3) red_fort_to_india_gate =
   Inr [\<lparr> res_bus_number = ''DL-01'', route_name = ''Red Line'', eta_minutes = 5,
          occupancy_percentage = 97, available_seats = 1, next_arrival = ''10:05'' \<rparr>,
        \<lparr> res_bus_number = ''DL-02'', route_name = ''Red Line'', eta_minutes = 5,
          occupancy_percentage = 12, available_seats = 35, next_arrival = ''10:05'' \<rparr>] \<and>
   occupancy_percentage_spec 39 40 = 98 \<and> occupancy_percentage_spec 5 40 = 13"
  using scenario_tie_12 spec_percentages by simp

text \<open>
  The amended claim at the bus with occupancy 39/40.
\<close>

theorem find_buses_occupancy_truncated_witness:
  "find_buses sampled_math literal_dot_engine
     (delhi_db [bus_at_red_fort ''bus-1'' ''DL-01'' 40 39 ''active'',
                bus_at_red_fort ''bus-2'' ''DL-02'' 40 5 ''active''])
     (two_draw_env 5 1) red_fort_to_india_gate =
   Inr [\<lparr> res_bus_number = ''DL-02'', route_name = ''Red Line'', eta_minutes = 3,
          occupancy_percentage = 12, available_seats = 35, next_arrival = ''10:03'' \<rparr>,
        \<lparr> res_bus_number = ''DL-01'', route_name = ''Red Line'', eta_minutes = 7,
          occupancy_percentage = 97, available_seats = 1, next_arrival = ''10:07'' \<rparr>] \<and>
   (\<exists>b ratio prod.
      b \<in> set [bus_at_red_fort ''bus-1'' ''DL-01'' 40 39 ''active'',
                bus_at_red_fort ''bus-2'' ''DL-02'' 40 5 ''active''] \<and>
      status b = ''active'' \<and> bus_number b = ''DL-01'' \<and>
      capacity b - current_occupancy b = 1 \<and> capacity b \<noteq> 0 \<and>
      round_double (of_int (current_occupancy b) / of_int (capacity b)) = Finite ratio \<and>
      round_double (ratio * 100) = Finite prod \<and> trunc_rat prod = 97)"
proof -
  let ?r = "\<lparr> res_bus_number = ''DL-01'', route_name = ''Red Line'', eta_minutes = 7,
          occupancy_percentage = 97, available_seats = 1, next_arrival = ''10:07'' \<rparr>"
  from find_buses_occupancy_truncated [OF scenario_two_buses, of ?r]
  obtain b ratio prod where
    "b \<in> set (buses (delhi_db [bus_at_red_fort ''bus-1'' ''DL-01'' 40 39 ''active'',
                bus_at_red_fort ''bus-2'' ''DL-02'' 40 5 ''active'']))"
    "status b = ''active''" "res_bus_number ?r = bus_number b"
    "available_seats ?r = capacity b - current_occupancy b" "capacity b \<noteq> 0"
    "round_double (of_int (current_occupancy b) / of_int (capacity b)) = Finite ratio"
    "round_double (ratio * 100) = Finite prod" "occupancy_percentage ?r = trunc_rat prod"
    by auto
  then have "\<exists>b ratio prod.
      b \<in> set [bus_at_red_fort ''bus-1'' ''DL-01'' 40 39 ''active'',
                bus_at_red_fort ''bus-2'' ''DL-02'' 40 5 ''active''] \<and>
      status b = ''active'' \<and> bus_number b = ''DL-01'' \<and>
      capacity b - current_occupancy b = 1 \<and> capacity b \<noteq> 0 \<and>
      round_double (of_int (current_occupancy b) / of_int (capacity b)) = Finite ratio \<and>
      round_double (ratio * 100) = Finite prod \<and> trunc_rat prod = 97"
    by (intro exI [of _ b] exI [of _ ratio] exI [of _ prod]) (simp add: delhi_db_def)
  with scenario_two_buses show ?thesis by blast
qed

subsection \<open>Estimated time of arrival\<close>

text \<open>
  Claim C5. Under the facts of the \<^verbatim>\<open>math\<close> module, for every result \<open>eta_minutes\<close> is
  the distance from the bus to the from-stop as \<^verbatim>\<open>calculate_distance\<close> returns it, divided
  by 20 and multiplied by 60 in double precision, cut to whole minutes, plus a jitter
  between 2 and 8. The distance is not negative, so \<open>eta_minutes\<close> is positive, and for a
  bus standing at the (finite) coordinates of the from-stop it lies between 2 and 10.
\<close>

theorem find_buses_eta:
  assumes "math_facts math" and "find_buses math engine db env q = Inr rs" and "r \<in> set rs"
  shows "\<exists>fs b dist hours minutes j.
           find_one_by_name engine (bus_stops db) (from_stop q) = Inr (Some fs) \<and>
           b \<in> set (buses db) \<and> status b = ''active'' \<and> res_bus_number r = bus_number b \<and>
           calculate_distance math (current_lat b) (current_lng b) (s_lat fs) (s_lng fs)
             = Inr (Finite dist) \<and>
           0 \<le> dist \<and>
           round_double (dist / 20) = Finite hours \<and>
           round_double (hours * 60) = Finite minutes \<and>
           2 \<le> j \<and> j \<le> 8 \<and>
           eta_minutes r = \<lfloor>minutes\<rfloor> + j \<and>
           0 < eta_minutes r \<and>
           (current_lat b = s_lat fs \<and> current_lng b = s_lng fs \<and>
            is_finite (s_lat fs) \<and> is_finite (s_lng fs) \<longrightarrow>
              2 \<le> eta_minutes r \<and> eta_minutes r \<le> 10)"
proof -
  from find_buses_member [OF assms(2,3)] obtain fs ts rt b k where
    f: "find_one_by_name engine (bus_stops db) (from_stop q) = Inr (Some fs)" and
    m: "(rt, b) \<in> set (route_bus_pairs db fs ts)" and
    x: "bus_response math env fs k rt b = Inr r"
    by blast
  from m have b: "b \<in> set (buses db)" "status b = ''active''"
    by (simp_all add: route_bus_pairs_member)
  from bus_response_fields [OF x] obtain d mins where
    d: "calculate_distance math (current_lat b) (current_lng b) (s_lat fs) (s_lng fs) = Inr d" and
    w: "whole_minutes d = Inr mins" and
    e: "eta_minutes r = mins + randint (random_raw env k) 2 8" and
    n: "res_bus_number r = bus_number b"
    by blast
  define j where "j = randint (random_raw env k) 2 8"
  have j: "2 \<le> j" "j \<le> 8" using randint_2_8 [of "random_raw env k"] by (simp_all add: j_def)
  have "\<not> float_negative d" using assms(1) d by (rule calculate_distance_not_negative)
  from whole_minutes_not_negative [OF w this] obtain dist hours minutes where
    dd: "d = Finite dist" and d0: "0 \<le> dist" and
    h: "round_double (dist / 20) = Finite hours" and
    mi: "round_double (hours * 60) = Finite minutes" and
    m0: "0 \<le> minutes" and mm: "mins = \<lfloor>minutes\<rfloor>"
    by blast
  have fl0: "0 \<le> \<lfloor>minutes\<rfloor>" using m0 by simp
  have eta: "eta_minutes r = \<lfloor>minutes\<rfloor> + j" using e mm by (simp add: j_def)
  have pos: "0 < eta_minutes r" using eta fl0 j by linarith
  have at_stop: "2 \<le> eta_minutes r \<and> eta_minutes r \<le> 10"
    if "current_lat b = s_lat fs \<and> current_lng b = s_lng fs \<and>
        is_finite (s_lat fs) \<and> is_finite (s_lng fs)"
  proof -
    from that obtain lat lng where c: "s_lat fs = Finite lat" "s_lng fs = Finite lng"
      "current_lat b = Finite lat" "current_lng b = Finite lng"
      by (cases "s_lat fs"; cases "s_lng fs") (auto simp: is_finite_def)
    from d c have "d = Finite 0"
      using calculate_distance_same_point_returned [OF assms(1), of lat lng d] by simp
    with dd have "dist = 0" by simp
    with h have "hours = 0" by (simp add: round_double_zero)
    with mi have "minutes = 0" by (simp add: round_double_zero)
    with eta j show ?thesis by simp
  qed
  from f b n d dd d0 h mi j eta pos at_stop show ?thesis by blast
qed

text \<open>
  The claim on the equator: the bus one kilometre north of the from-stop is 2 whole
  minutes away and draws a jitter of 7, the bus at the from-stop draws 3.
\<close>

theorem find_buses_eta_witness:
  "math_facts sampled_math \<and>
   find_buses sampled_math literal_dot_engine equator_db (two_draw_env 5 1) west_to_east =
   Inr [\<lparr> res_bus_number = ''EQ-02'', route_name = ''Equator Line'', eta_minutes = 3,
          occupancy_percentage = 25, available_seats = 30, next_arrival = ''10:03'' \<rparr>,
        \<lparr> res_bus_number = ''EQ-01'', route_name = ''Equator Line'', eta_minutes = 9,
          occupancy_percentage = 25, available_seats = 30, next_arrival = ''10:09'' \<rparr>] \<and>
   calculate_distance sampled_math (Finite one_km_north) (Finite 0) (Finite 0) (Finite 0) =
     Inr (Finite (9007199254740991 / 9007199254740992)) \<and>
   (\<exists>fs b dist hours minutes j.
      find_one_by_name literal_dot_engine (bus_stops equator_db) (from_stop west_to_east)
        = Inr (Some fs) \<and>
      b \<in> set (buses equator_db) \<and> bus_number b = ''EQ-01'' \<and>
      calculate_distance sampled_math (current_lat b) (current_lng b) (s_lat fs) (s_lng fs)
        = Inr (Finite dist) \<and>
      0 \<le> dist \<and> round_double (dist / 20) = Finite hours \<and>
      round_double (hours * 60) = Finite minutes \<and>
      2 \<le> j \<and> j \<le> 8 \<and> (9::int) = \<lfloor>minutes\<rfloor> + j)"
proof -
  let ?r = "\<lparr> res_bus_number = ''EQ-01'', route_name = ''Equator Line'', eta_minutes = 9,
          occupancy_percentage = 25, available_seats = 30, next_arrival = ''10:09'' \<rparr>"
  from find_buses_eta [OF sampled_math_facts scenario_equator, of ?r]
  obtain fs b dist hours minutes j where
    "find_one_by_name literal_dot_engine (bus_stops equator_db) (from_stop west_to_east)
       = Inr (Some fs)"
    "b \<in> set (buses equator_db)" "res_bus_number ?r = bus_number b"
    "calculate_distance sampled_math (current_lat b) (current_lng b) (s_lat fs) (s_lng fs)
       = Inr (Finite dist)"
    "0 \<le> dist" "round_double (dist / 20) = Finite hours"
    "round_double (hours * 60) = Finite minutes"
    "2 \<le> j" "j \<le> 8" "eta_minutes ?r = \<lfloor>minutes\<rfloor> + j"
    by auto
  then have "\<exists>fs b dist hours minutes j.
      find_one_by_name literal_dot_engine (bus_stops equator_db) (from_stop west_to_east)
        = Inr (Some fs) \<and>
      b \<in> set (buses equator_db) \<and> bus_number b = ''EQ-01'' \<and>
      calculate_distance sampled_math (current_lat b) (current_lng b) (s_lat fs) (s_lng fs)
        = Inr (Finite dist) \<and>
      0 \<le> dist \<and> round_double (dist / 20) = Finite hours \<and>
      round_double (hours * 60) = Finite minutes \<and>
      2 \<le> j \<and> j \<le> 8 \<and> (9::int) = \<lfloor>minutes\<rfloor> + j"
    by (intro exI [of _ fs] exI [of _ b] exI [of _ dist] exI [of _ hours]
          exI [of _ minutes] exI [of _ j]) simp
  with sampled_math_facts scenario_equator calculate_distance_one_km show ?thesis by blast
qed

end
